theory Spec2Isabelle
  imports Main "HOL-Library.Word"
begin

section \<open>Python values used by main.py\<close>

text \<open>
  The exceptions main.py can raise, as values. \<open>Exception\<close> and \<open>FileNotFoundError\<close>
  carry the message the source builds; the others are raised by the interpreter or the
  standard library: \<open>AttributeError\<close> by a method call on \<open>None\<close>, \<open>IndexError\<close> by
  \<open>[...][0]\<close> on an empty list, \<open>TypeError\<close> by \<open>int(None)\<close>, \<open>ValueError\<close> by
  \<open>int\<close> on a string that is not an integer literal, \<open>IsADirectoryError\<close> by \<open>open\<close>
  on a path that names a directory. \<open>LibraryError\<close> stands for an
  exception raised inside a library call that the model takes as a parameter (the XML
  parser, \<open>gzip\<close>, the UTF-8 decoder).
\<close>

datatype error =
    Exception string
  | FileNotFoundError string
  | IsADirectoryError string
  | AttributeError
  | IndexError
  | TypeError
  | ValueError
  | LibraryError string

text \<open>
  An \<open>xml.etree.ElementTree.Element\<close>: tag, attribute dictionary, text (\<open>None\<close> when the
  element has no character data) and the ordered list of children. An \<open>ElementTree\<close> is
  modelled by its root element: \<open>tree.find(p)\<close> is \<open>root.find(p)\<close>.
\<close>

datatype element =
  Element (tag: string) (attrib: "(string \<times> string) list") (etext: "string option")
    (children: "element list")

text \<open>\<open>e.find(t)\<close> for a plain tag name: the first child with that tag, or \<open>None\<close>.\<close>

definition find_child :: "string \<Rightarrow> element \<Rightarrow> element option" where
  "find_child t e = List.find (\<lambda>c. tag c = t) (children e)"

text \<open>\<open>e.findall(t)\<close>: all children with that tag, in document order.\<close>

definition findall :: "string \<Rightarrow> element \<Rightarrow> element list" where
  "findall t e = filter (\<lambda>c. tag c = t) (children e)"

text \<open>\<open>e.get(k)\<close>: the attribute's value, or \<open>None\<close>.\<close>

definition get_attr :: "string \<Rightarrow> element \<Rightarrow> string option" where
  "get_attr k e = map_of (attrib e) k"

text \<open>
  The truth value of the result of \<open>find\<close> in an \<open>if\<close>: \<open>None\<close> is false, and an
  \<open>Element\<close> is true exactly when it has at least one child (\<open>Element.__bool__\<close> is
  \<open>len(self) != 0\<close>).
\<close>

definition truthy :: "element option \<Rightarrow> bool" where
  "truthy r = (case r of None \<Rightarrow> False | Some e \<Rightarrow> children e \<noteq> [])"

text \<open>\<open>ET.SubElement(parent, ...)\<close> appends the new element to the parent's children.\<close>

definition append_child :: "element \<Rightarrow> element \<Rightarrow> element" where
  "append_child parent c = Element (tag parent) (attrib parent) (etext parent) (children parent @ [c])"

definition set_children :: "element \<Rightarrow> element list \<Rightarrow> element" where
  "set_children e cs = Element (tag e) (attrib e) (etext e) cs"

text \<open>
  \<open>parent.remove(parent.find(t))\<close> deletes the first child with tag \<open>t\<close>: \<open>find\<close> returns
  that very object and elements compare by identity.
\<close>

fun remove_first :: "('a \<Rightarrow> bool) \<Rightarrow> 'a list \<Rightarrow> 'a list" where
  "remove_first P [] = []"
| "remove_first P (x # xs) = (if P x then xs else x # remove_first P xs)"

text \<open>
  A mutation through the reference that \<open>find\<close> returned changes the first matching child
  in place.
\<close>

fun update_first :: "('a \<Rightarrow> bool) \<Rightarrow> ('a \<Rightarrow> 'a) \<Rightarrow> 'a list \<Rightarrow> 'a list" where
  "update_first P f [] = []"
| "update_first P f (x # xs) = (if P x then f x # xs else x # update_first P f xs)"

text \<open>
  \<open>str(n)\<close> of an integer, which \<open>f"{n}"\<close> and \<open>"{}".format(n)\<close> produce: its decimal
  digits, with a minus sign when negative. The interpreter's optional limit on the number
  of digits of such a conversion is not modelled.
\<close>

fun str_of_nat :: "nat \<Rightarrow> string" where
  "str_of_nat n =
     (if n < 10 then [''0123456789'' ! n]
      else str_of_nat (n div 10) @ [''0123456789'' ! (n mod 10)])"

declare str_of_nat.simps [simp del]

definition str_of_int :: "int \<Rightarrow> string" where
  "str_of_int i = (if i < 0 then CHR ''-'' # str_of_nat (nat (- i)) else str_of_nat (nat i))"

text \<open>
  \<open>int(v)\<close> for a value that is a string or \<open>None\<close>. Which strings Python's built-in
  \<open>int\<close> accepts is left to the parameter \<open>int_of\<close> (it is not code of this program);
  \<open>int_of_decimal\<close> below is the instance used on concrete inputs.
\<close>

definition py_int :: "(string \<Rightarrow> int option) \<Rightarrow> string option \<Rightarrow> error + int" where
  "py_int int_of v =
     (case v of
        None \<Rightarrow> Inl TypeError
      | Some s \<Rightarrow> (case int_of s of None \<Rightarrow> Inl ValueError | Some i \<Rightarrow> Inr i))"

text \<open>\<open>"{}".format(v)\<close> for a value that is a string or \<open>None\<close>.\<close>

definition py_format :: "string option \<Rightarrow> string" where
  "py_format v = (case v of None \<Rightarrow> ''None'' | Some s \<Rightarrow> s)"

text \<open>Plain decimal literals: an optional sign and at least one ASCII digit.\<close>

definition digit_val :: "char \<Rightarrow> nat option" where
  "digit_val c =
     (let n = (of_char c :: nat) in if 48 \<le> n \<and> n \<le> 57 then Some (n - 48) else None)"

fun nat_of_digits :: "nat \<Rightarrow> string \<Rightarrow> nat option" where
  "nat_of_digits acc [] = Some acc"
| "nat_of_digits acc (c # cs) =
     (case digit_val c of None \<Rightarrow> None | Some d \<Rightarrow> nat_of_digits (acc * 10 + d) cs)"

definition int_of_decimal :: "string \<Rightarrow> int option" where
  "int_of_decimal s =
     (case s of
        [] \<Rightarrow> None
      | c # cs \<Rightarrow>
          if c = CHR ''-'' then (if cs = [] then None else map_option (\<lambda>n. - int n) (nat_of_digits 0 cs))
          else if c = CHR ''+'' then (if cs = [] then None else map_option int (nat_of_digits 0 cs))
          else map_option int (nat_of_digits 0 s))"

section \<open>Locator Splicer: \<open>add_markers_to_ableton_project\<close>\<close>

text \<open>
  One entry of the list \<open>extract_marker_from_gp_xml\<close> returns: the dictionary
  \<open>{"bar": measure.get("number"), "marker": rehearsal.text}\<close>. Both values are a string
  or \<open>None\<close>.
\<close>

record marker_record =
  bar :: "string option"
  marker :: "string option"

text \<open>
  The body of the \<open>for marker in gp_markers_dict\<close> loop (lines 102 to 109), on the
  children of \<open>locators_element_2\<close>. The \<open>Locator\<close> element and its \<open>LomId\<close> child are
  already in the tree when \<open>int(marker["bar"])\<close> raises, so the failing branch keeps them.
\<close>

fun add_locators ::
  "(string \<Rightarrow> int option) \<Rightarrow> nat \<Rightarrow> marker_record list \<Rightarrow> element \<Rightarrow> error option \<times> element"
where
  "add_locators int_of locator_id [] locators_element_2 = (None, locators_element_2)"
| "add_locators int_of locator_id (m # ms) locators_element_2 =
     (let locator_id = locator_id + 1;
          locator = Element ''Locator'' [(''Id'', str_of_int (int locator_id))] None [];
          locator = append_child locator (Element ''LomId'' [(''Value'', ''0'')] None [])
      in case py_int int_of (bar m) of
           Inl e \<Rightarrow> (Some e, append_child locators_element_2 locator)
         | Inr b \<Rightarrow>
             (let locator = append_child locator
                    (Element ''Time'' [(''Value'', str_of_int ((b - 1) * 4))] None []);
                  locator = append_child locator
                    (Element ''Name'' [(''Value'', py_format (marker m))] None []);
                  locator = append_child locator (Element ''Annotation'' [(''Value'', '''')] None []);
                  locator = append_child locator
                    (Element ''IsSongStart'' [(''Value'', ''false'')] None [])
              in add_locators int_of locator_id ms (append_child locators_element_2 locator)))"

text \<open>
  The list comprehension of lines 95 to 97: the positions of the children named
  \<open>ViewStateSessionMixerHeight\<close>.
\<close>

definition anchor_positions :: "element list \<Rightarrow> nat list" where
  "anchor_positions cs =
     [position \<leftarrow> [0..<length cs]. tag (cs ! position) = ''ViewStateSessionMixerHeight'']"

text \<open>Writing through the \<open>live_set\<close> reference changes the root's first \<open>LiveSet\<close> child.\<close>

definition set_live_set :: "element \<Rightarrow> element list \<Rightarrow> element" where
  "set_live_set root cs =
     set_children root
       (update_first (\<lambda>c. tag c = ''LiveSet'') (\<lambda>live_set. set_children live_set cs) (children root))"

text \<open>
  Lines 91 to 93: \<open>if live_set.find("Locators"): live_set.remove(live_set.find("Locators"))\<close>.
  The result is the list of children of \<open>live_set\<close> after these lines.
\<close>

definition remove_stale_locators :: "element \<Rightarrow> element list" where
  "remove_stale_locators live_set =
     (if truthy (find_child ''Locators'' live_set)
      then remove_first (\<lambda>c. tag c = ''Locators'') (children live_set)
      else children live_set)"

text \<open>
  \<open>add_markers_to_ableton_project\<close> mutates the tree and returns nothing. The model
  returns the exception raised, if any, and the tree as the call leaves it.
\<close>

definition add_markers_to_ableton_project ::
  "(string \<Rightarrow> int option) \<Rightarrow> element \<Rightarrow> marker_record list \<Rightarrow> error option \<times> element"
where
  "add_markers_to_ableton_project int_of ableton_project_tree gp_markers_dict =
     (if gp_markers_dict = []
      then (Some (Exception ''There is no Guitar Pro market to import!''), ableton_project_tree)
      else
        case find_child ''LiveSet'' ableton_project_tree of
          None \<Rightarrow> (Some AttributeError, ableton_project_tree)
        | Some live_set \<Rightarrow>
            (let cs1 = remove_stale_locators live_set
             in case anchor_positions cs1 of
                  [] \<Rightarrow> (Some IndexError, set_live_set ableton_project_tree cs1)
                | p # _ \<Rightarrow>
                    (let position_for_locators_element_1 = p + 1;
                         cs2 = take position_for_locators_element_1 cs1
                               @ [Element ''Locators'' [] None []]
                               @ drop position_for_locators_element_1 cs1;
                         (err, locators_element_2) =
                           add_locators int_of 0 gp_markers_dict (Element ''Locators'' [] None []);
                         cs3 = update_first (\<lambda>c. tag c = ''Locators'')
                                 (\<lambda>l. append_child l locators_element_2) cs2
                     in (err, set_live_set ableton_project_tree cs3))))"

text \<open>
  Lines 98 and 99 together with the loop's effect on the tree: the empty \<open>Locators\<close>
  element goes in at index \<open>p + 1\<close>, and the element \<open>inner\<close> (the finished
  \<open>locators_element_2\<close>) becomes the last child of the first child named \<open>Locators\<close>,
  which is what \<open>live_set.find("Locators")\<close> returns.
\<close>

definition insert_locators :: "nat \<Rightarrow> element \<Rightarrow> element list \<Rightarrow> element list" where
  "insert_locators p inner cs =
     update_first (\<lambda>c. tag c = ''Locators'') (\<lambda>l. append_child l inner)
       (take (Suc p) cs @ [Element ''Locators'' [] None []] @ drop (Suc p) cs)"

section \<open>Marker Extractor: \<open>extract_marker_from_gp_xml\<close>\<close>

text \<open>
  The inner list comprehension (lines 66 to 69), over \<open>measure.findall("direction")\<close>.
  For each direction the filter \<open>direction.find("direction-type").findall("rehearsal")\<close>
  is evaluated first: it raises \<open>AttributeError\<close> when the direction has no
  \<open>direction-type\<close> child, and is true when the first \<open>direction-type\<close> child has at least
  one \<open>rehearsal\<close> child. The element kept is
  \<open>direction.find("direction-type").find("rehearsal")\<close>.
\<close>

fun rehearsals :: "element list \<Rightarrow> error + element option list" where
  "rehearsals [] = Inr []"
| "rehearsals (direction # directions) =
     (case find_child ''direction-type'' direction of
        None \<Rightarrow> Inl AttributeError
      | Some direction_type \<Rightarrow>
          (case rehearsals directions of
             Inl e \<Rightarrow> Inl e
           | Inr rs \<Rightarrow>
               if findall ''rehearsal'' direction_type \<noteq> []
               then Inr (find_child ''rehearsal'' direction_type # rs)
               else Inr rs))"

text \<open>
  The body of the inner loop (line 71), for the rehearsals of one measure:
  \<open>marker_list.append({"bar": measure.get("number"), "marker": rehearsal.text})\<close>.
\<close>

fun append_markers :: "element \<Rightarrow> element option list \<Rightarrow> error + marker_record list" where
  "append_markers measure_elem [] = Inr []"
| "append_markers measure_elem (None # rs) = Inl AttributeError"
| "append_markers measure_elem (Some rehearsal # rs) =
     (case append_markers measure_elem rs of
        Inl e \<Rightarrow> Inl e
      | Inr ms \<Rightarrow> Inr (\<lparr>bar = get_attr ''number'' measure_elem, marker = etext rehearsal\<rparr> # ms))"

definition markers_of_measure :: "element \<Rightarrow> error + marker_record list" where
  "markers_of_measure measure_elem =
     (case rehearsals (findall ''direction'' measure_elem) of
        Inl e \<Rightarrow> Inl e
      | Inr rs \<Rightarrow> append_markers measure_elem rs)"

text \<open>
  The outer loop (line 65) over the measures that pass the test
  \<open>if measure.find("direction")\<close>, which is the truth value of an element.
\<close>

fun markers_of_measures :: "element list \<Rightarrow> error + marker_record list" where
  "markers_of_measures [] = Inr []"
| "markers_of_measures (measure_elem # measure_elems) =
     (if truthy (find_child ''direction'' measure_elem)
      then (case markers_of_measure measure_elem of
              Inl e \<Rightarrow> Inl e
            | Inr ms \<Rightarrow>
                (case markers_of_measures measure_elems of
                   Inl e \<Rightarrow> Inl e
                 | Inr rest \<Rightarrow> Inr (ms @ rest)))
      else markers_of_measures measure_elems)"

text \<open>Lines 63 to 72 on the parsed tree: \<open>tree.find("part").findall("measure")\<close> and the loops.\<close>

definition markers_of_tree :: "element \<Rightarrow> error + marker_record list" where
  "markers_of_tree tree =
     (case find_child ''part'' tree of
        None \<Rightarrow> Inl AttributeError
      | Some part \<Rightarrow> markers_of_measures (findall ''measure'' part))"

text \<open>
  The file system as the functions see it: the regular files and their bytes.
  \<open>os.path.isfile(p)\<close> is \<open>files p \<noteq> None\<close>. Directories, links and permissions are not
  modelled.
\<close>

type_synonym byte = "8 word"

type_synonym files = "string \<rightharpoonup> byte list"

text \<open>
  \<open>extract_marker_from_gp_xml\<close>. \<open>ET.parse\<close> is the parameter \<open>xml_parse\<close>, from the bytes
  of the file to the tree or the exception it raises.
\<close>

definition extract_marker_from_gp_xml ::
  "(byte list \<Rightarrow> error + element) \<Rightarrow> files \<Rightarrow> string \<Rightarrow> error + marker_record list"
where
  "extract_marker_from_gp_xml xml_parse fs gp_xml_file =
     (case fs gp_xml_file of
        Some content \<Rightarrow>
          (case xml_parse content of
             Inl e \<Rightarrow> Inl e
           | Inr tree \<Rightarrow> markers_of_tree tree)
      | None \<Rightarrow>
          Inl (FileNotFoundError (''The GuitarPro XML file '' @ gp_xml_file @ '' does not exist'')))"

text \<open>
  What the loops compute on a part in which every direction has a \<open>direction-type\<close>
  child, in closed form: for each measure and each of its directions, in order, the record
  of the first \<open>rehearsal\<close> child of the direction's first \<open>direction-type\<close> child, when
  there is one (\<open>find\<close> returns the first match). The lemmas of the extractor relate the
  loops to it.
\<close>

definition direction_records :: "element \<Rightarrow> element \<Rightarrow> marker_record list" where
  "direction_records measure_elem direction =
     (case find_child ''direction-type'' direction of
        None \<Rightarrow> []
      | Some direction_type \<Rightarrow>
          (case find_child ''rehearsal'' direction_type of
             None \<Rightarrow> []
           | Some rehearsal \<Rightarrow> [\<lparr>bar = get_attr ''number'' measure_elem, marker = etext rehearsal\<rparr>]))"

definition measure_records :: "element \<Rightarrow> marker_record list" where
  "measure_records measure_elem =
     concat (map (direction_records measure_elem) (findall ''direction'' measure_elem))"

definition part_records :: "element \<Rightarrow> marker_record list" where
  "part_records part = concat (map measure_records (findall ''measure'' part))"

text \<open>
  The extraction as the specification words it (spec sections 4.2 and 8): one record per
  rehearsal node, for each measure in document order, each of its direction nodes in
  order, and each rehearsal node inside a direction-type child of that direction; the
  record holds the measure's \<open>number\<close> and the rehearsal's text.
\<close>

definition spec_direction_markers :: "element \<Rightarrow> element \<Rightarrow> marker_record list" where
  "spec_direction_markers measure_elem direction =
     concat (map (\<lambda>direction_type.
                    map (\<lambda>rehearsal. \<lparr>bar = get_attr ''number'' measure_elem,
                                       marker = etext rehearsal\<rparr>)
                      (findall ''rehearsal'' direction_type))
               (findall ''direction-type'' direction))"

definition spec_measure_markers :: "element \<Rightarrow> marker_record list" where
  "spec_measure_markers measure_elem =
     concat (map (spec_direction_markers measure_elem) (findall ''direction'' measure_elem))"

definition spec_markers :: "element \<Rightarrow> marker_record list" where
  "spec_markers part = concat (map spec_measure_markers (findall ''measure'' part))"

section \<open>Project Store Adapter\<close>

text \<open>\<open>s.endswith(suffix)\<close>.\<close>

definition endswith :: "string \<Rightarrow> string \<Rightarrow> bool" where
  "endswith s suffix =
     (length suffix \<le> length s \<and> drop (length s - length suffix) s = suffix)"

definition add_als_extension_if_it_is_not_set :: "string \<Rightarrow> string" where
  "add_als_extension_if_it_is_not_set als_file =
     (if endswith als_file ''.als'' then als_file else als_file @ ''.als'')"

text \<open>
  \<open>s.replace(old, new)\<close> for a non-empty \<open>old\<close>: every occurrence, found from left to
  right without overlap, is replaced.
\<close>

function str_replace :: "string \<Rightarrow> string \<Rightarrow> string \<Rightarrow> string" where
  "str_replace old new [] = []"
| "str_replace old new (c # cs) =
     (if old \<noteq> [] \<and> take (length old) (c # cs) = old
      then new @ str_replace old new (drop (length old) (c # cs))
      else c # str_replace old new cs)"
  by pat_completeness auto
termination
  by (relation "measure (\<lambda>(old, new, s). length s)") (auto simp: neq_Nil_conv)

text \<open>
  \<open>extract_xml_from_ableton_project\<close>. The test of line 42 compares the hexadecimal
  form of the first two bytes read with \<open>1f8b\<close>, that is the bytes themselves with
  \<open>1f 8b\<close>; \<open>read(2)\<close> returns fewer bytes on a shorter file. \<open>gzip.open(...).read()\<close>,
  \<open>bytes.decode("utf-8")\<close> and \<open>ET.fromstring\<close> are the parameters \<open>gunzip\<close>,
  \<open>decode\<close> and \<open>fromstring\<close>, each returning its result or the exception it raises.
\<close>

definition extract_xml_from_ableton_project ::
  "(byte list \<Rightarrow> error + byte list) \<Rightarrow> (byte list \<Rightarrow> error + string)
     \<Rightarrow> (string \<Rightarrow> error + element) \<Rightarrow> files \<Rightarrow> string \<Rightarrow> error + element"
where
  "extract_xml_from_ableton_project gunzip decode fromstring fs als_file =
     (let als_file = add_als_extension_if_it_is_not_set als_file
      in case fs als_file of
           Some project_compressed \<Rightarrow>
             if take 2 project_compressed \<noteq> [0x1f, 0x8b]
             then Inl (Exception ''Nothing to do here'')
             else (case gunzip project_compressed of
                     Inl e \<Rightarrow> Inl e
                   | Inr project_uncompressed \<Rightarrow>
                       (case decode project_uncompressed of
                          Inl e \<Rightarrow> Inl e
                        | Inr project_xml_string \<Rightarrow> fromstring project_xml_string))
         | None \<Rightarrow>
             Inl (FileNotFoundError (''The Ableton project '' @ als_file @ '' does not exist'')))"

text \<open>
  \<open>shutil.move(src, dst)\<close> between regular files: the source must exist
  (\<open>FileNotFoundError\<close>, an \<open>OSError\<close>, otherwise); a file already at the destination is
  replaced (\<open>os.rename\<close> replaces it, and where the platform's \<open>rename\<close> refuses,
  \<open>shutil.move\<close> falls back to copying over it and deleting the source).
\<close>

definition shutil_move :: "files \<Rightarrow> string \<Rightarrow> string \<Rightarrow> error option \<times> files" where
  "shutil_move fs src dst =
     (case fs src of
        None \<Rightarrow> (Some (FileNotFoundError src), fs)
      | Some content \<Rightarrow> (None, (fs(src := None))(dst \<mapsto> content)))"

text \<open>
  \<open>open(path, "wb")\<close> and \<open>open(path, "wb+")\<close> followed by writing \<open>content\<close> and
  closing: the file is created or replaced. The empty path cannot be opened
  (\<open>FileNotFoundError\<close>), and a path whose last component is empty, \<open>.\<close> or \<open>..\<close> names a
  directory (\<open>IsADirectoryError\<close>). Other directories, and permissions, are not modelled.
\<close>

definition basename_of :: "string \<Rightarrow> string" where
  "basename_of path = rev (takeWhile (\<lambda>c. c \<noteq> CHR ''/'') (rev path))"

definition names_directory :: "string \<Rightarrow> bool" where
  "names_directory path =
     (basename_of path = [] \<or> basename_of path = ''.'' \<or> basename_of path = ''..'')"

definition open_for_writing :: "files \<Rightarrow> string \<Rightarrow> byte list \<Rightarrow> error option \<times> files" where
  "open_for_writing fs path content =
     (if path = [] then (Some (FileNotFoundError path), fs)
      else if names_directory path then (Some (IsADirectoryError path), fs)
      else (None, fs(path \<mapsto> content)))"

text \<open>
  \<open>replace_ableton_project\<close>, as the steps it performs on the files: the move (line 122),
  writing the document to \<open>als_xml\<close> (lines 126 and 127), opening \<open>als_project\<close> for
  writing, which empties it, and compressing the content of \<open>als_xml\<close> into it (lines 129
  to 132), removing \<open>als_xml\<close> (line 134). \<open>serialize\<close> stands for \<open>ET.indent\<close> followed
  by \<open>tree.write(..., encoding="UTF-8", xml_declaration=True)\<close>, and
  \<open>gzip_compress name\<close> for writing through \<open>gzip.GzipFile(name, "wb", ...)\<close>. The
  function returns nothing: the model returns the exception raised, if any, and the files
  as the call leaves them.
\<close>

definition replace_ableton_project ::
  "(element \<Rightarrow> byte list) \<Rightarrow> (string \<Rightarrow> byte list \<Rightarrow> byte list)
     \<Rightarrow> files \<Rightarrow> string \<Rightarrow> element \<Rightarrow> error option \<times> files"
where
  "replace_ableton_project serialize gzip_compress fs als_file ableton_project_tree =
     (let als_project = add_als_extension_if_it_is_not_set als_file;
          als_xml = str_replace ''.als'' '''' als_project
      in case shutil_move fs als_project (als_xml @ ''_old.als'') of
           (Some e, fs1) \<Rightarrow> (Some e, fs1)
         | (None, fs1) \<Rightarrow>
             (case open_for_writing fs1 als_xml (serialize ableton_project_tree) of
                (Some e, fs2) \<Rightarrow> (Some e, fs2)
              | (None, fs2) \<Rightarrow>
                  (case open_for_writing fs2 als_project [] of
                     (Some e, fs3) \<Rightarrow> (Some e, fs3)
                   | (None, fs3) \<Rightarrow>
                       (let fs4 = (case fs3 als_xml of
                                     None \<Rightarrow> fs3
                                   | Some f_in \<Rightarrow>
                                       fs3(als_project \<mapsto> gzip_compress als_xml f_in))
                        in (None, fs4(als_xml := None))))))"

text \<open>
  The Locator entry as the specification's data model describes it (spec section 3):
  attribute \<open>Id\<close>, and the children \<open>LomId\<close> (fixed "0"), \<open>Time\<close>, \<open>Name\<close>,
  \<open>Annotation\<close> (empty) and \<open>IsSongStart\<close> (false), each holding its value in the
  attribute \<open>Value\<close>. The theorems compare what the loop builds with it.
\<close>

definition spec_locator :: "nat \<Rightarrow> int \<Rightarrow> string \<Rightarrow> element" where
  "spec_locator locator_id time name =
     Element ''Locator'' [(''Id'', str_of_int (int locator_id))] None
       [Element ''LomId'' [(''Value'', ''0'')] None [],
        Element ''Time'' [(''Value'', str_of_int time)] None [],
        Element ''Name'' [(''Value'', name)] None [],
        Element ''Annotation'' [(''Value'', '''')] None [],
        Element ''IsSongStart'' [(''Value'', ''false'')] None []]"

section \<open>Lists: first match, removal, update in place\<close>

lemma filter_upt_Cons:
  "filter P [0..<n] = p # ps \<Longrightarrow> p < n \<and> P p \<and> (\<forall>i<p. \<not> P i)"
proof (induction n arbitrary: ps)
  case 0
  then show ?case by simp
next
  case (Suc n)
  show ?case
  proof (cases "filter P [0..<n]")
    case Nil
    then have none: "\<forall>i<n. \<not> P i" by (auto simp: filter_empty_conv)
    from Suc.prems Nil have "P n \<and> p = n" by (auto split: if_splits)
    with none show ?thesis by simp
  next
    case (Cons q qs)
    with Suc.prems have "p = q" by (simp split: if_splits)
    with Cons have "filter P [0..<n] = p # qs" by simp
    from Suc.IH [OF this] show ?thesis by simp
  qed
qed

lemma find_update_first:
  assumes "\<And>x. P x \<Longrightarrow> P (f x)"
  shows "List.find P (update_first P f xs) = map_option f (List.find P xs)"
  using assms by (induction xs) auto

lemma length_update_first [simp]: "length (update_first P f xs) = length xs"
  by (induction xs) auto

lemma map_update_first:
  assumes "\<And>x. P x \<Longrightarrow> g (f x) = g x"
  shows "map g (update_first P f xs) = map g xs"
  using assms by (induction xs) auto

lemma nth_update_first_other:
  "i < length xs \<Longrightarrow> \<not> P (xs ! i) \<Longrightarrow> update_first P f xs ! i = xs ! i"
proof (induction xs arbitrary: i)
  case Nil
  then show ?case by simp
next
  case (Cons a xs)
  then show ?case by (cases i) auto
qed

lemma update_first_append:
  "update_first P f (xs @ ys) =
     (if \<exists>x\<in>set xs. P x then update_first P f xs @ ys else xs @ update_first P f ys)"
  by (induction xs) auto

lemma drop_update_first_insert:
  assumes "P x"
  shows "drop (Suc (length xs)) (update_first P f (xs @ [x] @ ys)) = ys"
  using assms by (simp add: update_first_append)

lemma filter_update_first:
  assumes "\<And>x. P x \<Longrightarrow> P (f x)"
  shows "filter (\<lambda>x. \<not> P x) (update_first P f xs) = filter (\<lambda>x. \<not> P x) xs"
  using assms by (induction xs) auto

lemma filter_remove_first:
  "filter (\<lambda>x. \<not> P x) (remove_first P xs) = filter (\<lambda>x. \<not> P x) xs"
  by (induction xs) auto

section \<open>The steps of the Locator Splicer\<close>

lemma anchor_positions_Cons:
  "anchor_positions cs = p # ps \<Longrightarrow>
     p < length cs \<and> tag (cs ! p) = ''ViewStateSessionMixerHeight''
     \<and> (\<forall>i<p. tag (cs ! i) \<noteq> ''ViewStateSessionMixerHeight'')"
  unfolding anchor_positions_def by (rule filter_upt_Cons)

lemma anchor_positions_Nil:
  "anchor_positions cs = [] \<longleftrightarrow> ''ViewStateSessionMixerHeight'' \<notin> tag ` set cs"
proof -
  have "anchor_positions cs = [] \<longleftrightarrow>
      (\<forall>i<length cs. tag (cs ! i) \<noteq> ''ViewStateSessionMixerHeight'')"
    unfolding anchor_positions_def filter_empty_conv by auto
  also have "\<dots> \<longleftrightarrow> (\<forall>c\<in>set cs. tag c \<noteq> ''ViewStateSessionMixerHeight'')"
    by (metis in_set_conv_nth)
  also have "\<dots> \<longleftrightarrow> ''ViewStateSessionMixerHeight'' \<notin> tag ` set cs"
    by (simp add: image_iff) metis
  finally show ?thesis .
qed

lemma filter_remove_stale_locators:
  "filter (\<lambda>c. tag c \<noteq> ''Locators'') (remove_stale_locators live_set) =
   filter (\<lambda>c. tag c \<noteq> ''Locators'') (children live_set)"
  using filter_remove_first [of "\<lambda>c. tag c = ''Locators''" "children live_set"]
  by (simp add: remove_stale_locators_def)

lemma anchor_remove_stale_locators:
  "''ViewStateSessionMixerHeight'' \<in> tag ` set (remove_stale_locators live_set) \<longleftrightarrow>
   ''ViewStateSessionMixerHeight'' \<in> tag ` set (children live_set)"
proof -
  have "\<And>cs. ''ViewStateSessionMixerHeight'' \<in> tag ` set cs \<longleftrightarrow>
      ''ViewStateSessionMixerHeight'' \<in> tag ` set (filter (\<lambda>c. tag c \<noteq> ''Locators'') cs)"
    by auto
  then show ?thesis using filter_remove_stale_locators by metis
qed

lemma add_locators_step:
  "py_int int_of (bar m) = Inr b \<Longrightarrow>
   add_locators int_of k (m # ms) e =
     add_locators int_of (Suc k) ms
       (append_child e (spec_locator (Suc k) ((b - 1) * 4) (py_format (marker m))))"
  by (simp add: Let_def append_child_def spec_locator_def)

lemma add_locators_fail_step:
  "py_int int_of (bar m) = Inl err \<Longrightarrow> fst (add_locators int_of k (m # ms) e) = Some err"
  by (simp add: Let_def)

lemma add_locators_ok:
  assumes "map (\<lambda>m. py_int int_of (bar m)) ms = map Inr bs"
  shows "add_locators int_of k ms e =
           (None, set_children e (children e @
              map (\<lambda>i. spec_locator (k + i + 1) ((bs ! i - 1) * 4) (py_format (marker (ms ! i))))
                [0..<length ms]))"
  using assms
proof (induction ms arbitrary: k e bs)
  case Nil
  show ?case by (cases e) (simp add: set_children_def)
next
  case (Cons m ms)
  from Cons.prems obtain b bs' where bs: "bs = b # bs'" and b: "py_int int_of (bar m) = Inr b"
    and rest: "map (\<lambda>m. py_int int_of (bar m)) ms = map Inr bs'"
    by (cases bs) auto
  have upt: "[0..<length (m # ms)] = 0 # map Suc [0..<length ms]"
    by (simp add: upt_conv_Cons map_Suc_upt del: upt_Suc)
  show ?case
    unfolding add_locators_step [OF b] Cons.IH [OF rest] upt bs
    by (simp add: set_children_def append_child_def comp_def)
qed

lemma add_locators_fails:
  assumes "map (\<lambda>m. py_int int_of (bar m)) pre = map Inr bs"
    and "py_int int_of (bar m) = Inl err"
  shows "fst (add_locators int_of k (pre @ m # post) e) = Some err"
  using assms(1)
proof (induction pre arbitrary: k e bs)
  case Nil
  show ?case using assms(2) by (simp add: add_locators_fail_step)
next
  case (Cons a pre)
  from Cons.prems obtain b bs' where b: "py_int int_of (bar a) = Inr b"
    and rest: "map (\<lambda>m. py_int int_of (bar m)) pre = map Inr bs'"
    by (cases bs) auto
  show ?case using Cons.IH [OF rest] by (simp only: append_Cons add_locators_step [OF b])
qed

lemma add_locators_None_iff:
  "fst (add_locators int_of k ms e) = None \<longleftrightarrow>
     (\<forall>m\<in>set ms. \<exists>b. py_int int_of (bar m) = Inr b)"
proof (induction ms arbitrary: k e)
  case Nil
  show ?case by simp
next
  case (Cons m ms)
  show ?case
  proof (cases "py_int int_of (bar m)")
    case (Inl err)
    then show ?thesis by (simp add: add_locators_fail_step)
  next
    case (Inr b)
    show ?thesis unfolding add_locators_step [OF Inr] Cons.IH using Inr by simp
  qed
qed

lemma add_locators_errors:
  "fst (add_locators int_of k ms e) \<in> {None, Some TypeError, Some ValueError}"
proof (induction ms arbitrary: k e)
  case Nil
  show ?case by simp
next
  case (Cons m ms)
  show ?case
  proof (cases "py_int int_of (bar m)")
    case (Inl err)
    then have "err = TypeError \<or> err = ValueError"
      by (auto simp: py_int_def split: option.splits)
    with Inl show ?thesis by (auto simp: Let_def)
  next
    case (Inr b)
    then show ?thesis using Cons.IH by (simp add: Let_def)
  qed
qed

lemma find_child_set_live_set:
  "find_child ''LiveSet'' root = Some live_set \<Longrightarrow>
   find_child ''LiveSet'' (set_live_set root cs) = Some (set_children live_set cs)"
  by (simp add: find_child_def set_live_set_def set_children_def find_update_first)

lemma splice_unfold:
  assumes "ms \<noteq> []" and "find_child ''LiveSet'' root = Some live_set"
    and "anchor_positions (remove_stale_locators live_set) = p # ps"
  shows "add_markers_to_ableton_project int_of root ms =
           (fst (add_locators int_of 0 ms (Element ''Locators'' [] None [])),
            set_live_set root
              (update_first (\<lambda>c. tag c = ''Locators'')
                 (\<lambda>l. append_child l (snd (add_locators int_of 0 ms (Element ''Locators'' [] None []))))
                 (take (Suc p) (remove_stale_locators live_set)
                  @ [Element ''Locators'' [] None []]
                  @ drop (Suc p) (remove_stale_locators live_set))))"
  using assms by (simp add: add_markers_to_ableton_project_def Let_def split: prod.split)

lemma splice_error_cases:
  "fst (add_markers_to_ableton_project int_of root ms) =
     (if ms = [] then Some (Exception ''There is no Guitar Pro market to import!'')
      else case find_child ''LiveSet'' root of
             None \<Rightarrow> Some AttributeError
           | Some live_set \<Rightarrow>
               if anchor_positions (remove_stale_locators live_set) = [] then Some IndexError
               else fst (add_locators int_of 0 ms (Element ''Locators'' [] None [])))"
  by (simp add: add_markers_to_ableton_project_def Let_def
      split: prod.split option.split list.split)

lemma tag_append_child [simp]: "tag (append_child l x) = tag l"
  by (simp add: append_child_def)

lemma children_append_child [simp]: "children (append_child l x) = children l @ [x]"
  by (simp add: append_child_def)

lemma insert_locators_length:
  "p < length cs \<Longrightarrow> length (insert_locators p inner cs) = Suc (length cs)"
  by (simp add: insert_locators_def)

lemma insert_locators_tags:
  "map tag (insert_locators p inner cs) =
     map tag (take (Suc p) cs) @ [''Locators''] @ map tag (drop (Suc p) cs)"
  by (simp add: insert_locators_def map_update_first)

lemma insert_locators_drop:
  assumes "p < length cs"
  shows "drop (Suc (Suc p)) (insert_locators p inner cs) = drop (Suc p) cs"
proof -
  have len: "length (take (Suc p) cs) = Suc p" using assms by simp
  have "drop (Suc (length (take (Suc p) cs)))
          (update_first (\<lambda>c. tag c = ''Locators'') (\<lambda>l. append_child l inner)
             (take (Suc p) cs @ [Element ''Locators'' [] None []] @ drop (Suc p) cs))
        = drop (Suc p) cs"
    by (rule drop_update_first_insert) simp
  then show ?thesis unfolding insert_locators_def len .
qed

lemma insert_locators_nth_before:
  assumes "p < length cs" and "i \<le> p" and "tag (cs ! i) \<noteq> ''Locators''"
  shows "insert_locators p inner cs ! i = cs ! i"
proof -
  let ?cs2 = "take (Suc p) cs @ [Element ''Locators'' [] None []] @ drop (Suc p) cs"
  have nth: "?cs2 ! i = cs ! i" using assms(1,2) by (simp add: nth_append)
  have "i < length ?cs2" using assms(1,2) by simp
  from nth_update_first_other [OF this, of "\<lambda>c. tag c = ''Locators''"] nth assms(3)
  show ?thesis by (simp add: insert_locators_def)
qed

lemma insert_locators_filter:
  "filter (\<lambda>c. tag c \<noteq> ''Locators'') (insert_locators p inner cs) =
   filter (\<lambda>c. tag c \<noteq> ''Locators'') cs"
proof -
  have "filter (\<lambda>c. tag c \<noteq> ''Locators'') (insert_locators p inner cs) =
        filter (\<lambda>c. tag c \<noteq> ''Locators'')
          (take (Suc p) cs @ [Element ''Locators'' [] None []] @ drop (Suc p) cs)"
    unfolding insert_locators_def
    by (rule filter_update_first [of "\<lambda>c. tag c = ''Locators''"]) simp
  also have "\<dots> = filter (\<lambda>c. tag c \<noteq> ''Locators'') (take (Suc p) cs)
      @ filter (\<lambda>c. tag c \<noteq> ''Locators'') (drop (Suc p) cs)"
    by simp
  also have "\<dots> = filter (\<lambda>c. tag c \<noteq> ''Locators'') (take (Suc p) cs @ drop (Suc p) cs)"
    by (simp only: filter_append)
  also have "\<dots> = filter (\<lambda>c. tag c \<noteq> ''Locators'') cs"
    by (simp only: append_take_drop_id)
  finally show ?thesis .
qed

lemma insert_locators_find:
  "\<exists>l. find_child ''Locators'' (set_children live_set (insert_locators p inner cs))
        = Some (append_child l inner)"
proof -
  let ?cs2 = "take (Suc p) cs @ [Element ''Locators'' [] None []] @ drop (Suc p) cs"
  have "\<exists>x\<in>set ?cs2. tag x = ''Locators''"
    by (rule bexI [of _ "Element ''Locators'' [] None []"]) simp_all
  then have "List.find (\<lambda>c. tag c = ''Locators'') ?cs2 \<noteq> None"
    by (simp only: find_None_iff) blast
  then obtain l where "List.find (\<lambda>c. tag c = ''Locators'') ?cs2 = Some l" by blast
  then have "List.find (\<lambda>c. tag c = ''Locators'') (insert_locators p inner cs)
      = Some (append_child l inner)"
    unfolding insert_locators_def by (simp add: find_update_first)
  then show ?thesis by (intro exI [of _ l]) (simp add: find_child_def set_children_def)
qed

lemma splice_result:
  assumes "ms \<noteq> []" and "find_child ''LiveSet'' root = Some live_set"
    and "anchor_positions (remove_stale_locators live_set) = p # ps"
  shows "add_markers_to_ableton_project int_of root ms =
           (fst (add_locators int_of 0 ms (Element ''Locators'' [] None [])),
            set_live_set root
              (insert_locators p (snd (add_locators int_of 0 ms (Element ''Locators'' [] None [])))
                 (remove_stale_locators live_set)))"
  unfolding insert_locators_def using assms by (rule splice_unfold)

section \<open>The steps of the Marker Extractor\<close>

lemma findall_empty_iff: "findall t e = [] \<longleftrightarrow> find_child t e = None"
  by (auto simp: findall_def find_child_def filter_empty_conv find_None_iff)

lemma find_child_in_findall: "find_child t e = Some c \<Longrightarrow> c \<in> set (findall t e)"
  by (auto simp: find_child_def findall_def find_Some_iff)

lemma find_child_children: "find_child t e = Some c \<Longrightarrow> children e \<noteq> []"
  by (auto simp: find_child_def)

lemma direction_markers_wf:
  assumes "\<forall>d\<in>set ds. find_child ''direction-type'' d \<noteq> None"
  shows "\<exists>rs. rehearsals ds = Inr rs
           \<and> append_markers m rs = Inr (concat (map (direction_records m) ds))"
  using assms
proof (induction ds)
  case Nil
  show ?case by simp
next
  case (Cons d ds)
  from Cons.prems obtain dt where dt: "find_child ''direction-type'' d = Some dt" by auto
  from Cons obtain rs where rs: "rehearsals ds = Inr rs"
    and ms: "append_markers m rs = Inr (concat (map (direction_records m) ds))"
    by auto
  show ?case
  proof (cases "find_child ''rehearsal'' dt")
    case None
    then have "findall ''rehearsal'' dt = []" by (simp add: findall_empty_iff)
    moreover have "direction_records m d = []"
      using dt None by (simp add: direction_records_def)
    ultimately show ?thesis using dt rs ms by simp
  next
    case (Some r)
    then have "findall ''rehearsal'' dt \<noteq> []" by (simp add: findall_empty_iff)
    moreover have "direction_records m d = [\<lparr>bar = get_attr ''number'' m, marker = etext r\<rparr>]"
      using dt Some by (simp add: direction_records_def)
    ultimately show ?thesis using dt rs ms Some by simp
  qed
qed

lemma markers_of_measure_wf:
  assumes "\<forall>d\<in>set (findall ''direction'' m). find_child ''direction-type'' d \<noteq> None"
  shows "markers_of_measure m = Inr (measure_records m)"
  using direction_markers_wf [OF assms, of m]
  by (auto simp: markers_of_measure_def measure_records_def)

lemma truthy_direction_wf:
  assumes "\<forall>d\<in>set (findall ''direction'' m). find_child ''direction-type'' d \<noteq> None"
  shows "truthy (find_child ''direction'' m) \<longleftrightarrow> findall ''direction'' m \<noteq> []"
proof (cases "find_child ''direction'' m")
  case None
  then show ?thesis by (simp add: truthy_def findall_empty_iff)
next
  case (Some d)
  then have "d \<in> set (findall ''direction'' m)" by (rule find_child_in_findall)
  with assms obtain dt where "find_child ''direction-type'' d = Some dt" by auto
  then have "children d \<noteq> []" by (rule find_child_children)
  with Some show ?thesis by (simp add: truthy_def findall_empty_iff)
qed

lemma markers_of_measures_wf:
  assumes "\<forall>m\<in>set ms. \<forall>d\<in>set (findall ''direction'' m). find_child ''direction-type'' d \<noteq> None"
  shows "markers_of_measures ms = Inr (concat (map measure_records ms))"
  using assms
proof (induction ms)
  case Nil
  show ?case by simp
next
  case (Cons m ms)
  then have wf: "\<forall>d\<in>set (findall ''direction'' m). find_child ''direction-type'' d \<noteq> None"
    and rest: "markers_of_measures ms = Inr (concat (map measure_records ms))"
    by simp_all
  show ?case
  proof (cases "findall ''direction'' m = []")
    case True
    then have "measure_records m = []" by (simp add: measure_records_def)
    with True rest show ?thesis by (simp add: truthy_direction_wf [OF wf])
  next
    case False
    with rest show ?thesis
      by (simp add: truthy_direction_wf [OF wf] markers_of_measure_wf [OF wf])
  qed
qed

lemma markers_of_tree_wf:
  assumes "find_child ''part'' tree = Some part"
    and "\<forall>m\<in>set (findall ''measure'' part).
           \<forall>d\<in>set (findall ''direction'' m). find_child ''direction-type'' d \<noteq> None"
  shows "markers_of_tree tree = Inr (part_records part)"
  using assms(1) markers_of_measures_wf [OF assms(2)]
  by (simp add: markers_of_tree_def part_records_def)

lemma extract_parsed:
  "fs gp_xml_file = Some content \<Longrightarrow> xml_parse content = Inr tree \<Longrightarrow>
   extract_marker_from_gp_xml xml_parse fs gp_xml_file = markers_of_tree tree"
  by (simp add: extract_marker_from_gp_xml_def)

lemma rehearsals_error: "rehearsals ds = Inl e \<Longrightarrow> e = AttributeError"
  by (induction ds arbitrary: e) (auto split: option.splits sum.splits if_splits)

lemma append_markers_error: "append_markers m rs = Inl e \<Longrightarrow> e = AttributeError"
  by (induction m rs arbitrary: e rule: append_markers.induct) (auto split: sum.splits)

lemma append_markers_bar:
  "append_markers m rs = Inr records \<Longrightarrow> \<forall>r\<in>set records. bar r = get_attr ''number'' m"
  by (induction m rs arbitrary: records rule: append_markers.induct) (auto split: sum.splits)

lemma markers_of_measure_error: "markers_of_measure m = Inl e \<Longrightarrow> e = AttributeError"
  by (auto simp: markers_of_measure_def split: sum.splits
      dest: rehearsals_error append_markers_error)

lemma markers_of_measure_bar:
  "markers_of_measure m = Inr records \<Longrightarrow> \<forall>r\<in>set records. bar r = get_attr ''number'' m"
  by (auto simp: markers_of_measure_def split: sum.splits dest: append_markers_bar)

lemma markers_of_measures_error: "markers_of_measures ms = Inl e \<Longrightarrow> e = AttributeError"
proof (induction ms arbitrary: e)
  case Nil
  then show ?case by simp
next
  case (Cons m ms)
  show ?case
  proof (cases "truthy (find_child ''direction'' m)")
    case False
    with Cons show ?thesis by simp
  next
    case True
    show ?thesis
    proof (cases "markers_of_measure m")
      case (Inl e')
      with True Cons.prems have "e = e'" by simp
      with Inl show ?thesis by (simp add: markers_of_measure_error)
    next
      case (Inr a)
      with True Cons.prems have "markers_of_measures ms = Inl e"
        by (simp split: sum.splits)
      then show ?thesis by (rule Cons.IH)
    qed
  qed
qed

lemma markers_of_measures_bar:
  "markers_of_measures ms = Inr records \<Longrightarrow>
     \<forall>r\<in>set records. \<exists>m\<in>set ms. bar r = get_attr ''number'' m"
proof (induction ms arbitrary: records)
  case Nil
  then show ?case by simp
next
  case (Cons m ms)
  show ?case
  proof (cases "truthy (find_child ''direction'' m)")
    case False
    with Cons.prems have "markers_of_measures ms = Inr records" by simp
    from Cons.IH [OF this] show ?thesis by simp
  next
    case True
    with Cons.prems obtain a rest where a: "markers_of_measure m = Inr a"
      and rest: "markers_of_measures ms = Inr rest" and eq: "records = a @ rest"
      by (auto split: sum.splits)
    from markers_of_measure_bar [OF a] Cons.IH [OF rest] show ?thesis
      unfolding eq by auto
  qed
qed

lemma markers_of_tree_error: "markers_of_tree tree = Inl e \<Longrightarrow> e = AttributeError"
  by (auto simp: markers_of_tree_def split: option.splits dest: markers_of_measures_error)

lemma markers_of_tree_bar:
  assumes "markers_of_tree tree = Inr records" and "r \<in> set records"
  shows "\<exists>part m. find_child ''part'' tree = Some part \<and> m \<in> set (findall ''measure'' part)
           \<and> bar r = get_attr ''number'' m"
proof -
  from assms(1) obtain part where part: "find_child ''part'' tree = Some part"
    and ms: "markers_of_measures (findall ''measure'' part) = Inr records"
    by (auto simp: markers_of_tree_def split: option.splits)
  from markers_of_measures_bar [OF ms] assms(2) part show ?thesis by blast
qed

lemma part_records_member:
  assumes "m \<in> set (findall ''measure'' part)" and "d \<in> set (findall ''direction'' m)"
    and "find_child ''direction-type'' d = Some dt" and "find_child ''rehearsal'' dt = Some r"
  shows "\<lparr>bar = get_attr ''number'' m, marker = etext r\<rparr> \<in> set (part_records part)"
proof -
  have "\<lparr>bar = get_attr ''number'' m, marker = etext r\<rparr> \<in> set (direction_records m d)"
    using assms(3,4) by (simp add: direction_records_def)
  with assms(2) have "\<lparr>bar = get_attr ''number'' m, marker = etext r\<rparr> \<in> set (measure_records m)"
    unfolding measure_records_def by auto
  with assms(1) show ?thesis unfolding part_records_def by auto
qed

section \<open>The extractor on documents of the notation format\<close>

lemma find_filter_hd:
  "List.find P xs = (case filter P xs of [] \<Rightarrow> None | x # _ \<Rightarrow> Some x)"
  by (induction xs) auto

lemma find_child_findall:
  "find_child t e = (case findall t e of [] \<Rightarrow> None | c # _ \<Rightarrow> Some c)"
  unfolding find_child_def findall_def by (rule find_filter_hd)

lemma direction_records_format:
  assumes "findall ''direction-type'' d = [dt]"
    and "length (findall ''rehearsal'' dt) \<le> 1"
  shows "direction_records m d = spec_direction_markers m d"
proof -
  have dt: "find_child ''direction-type'' d = Some dt"
    using assms(1) by (simp add: find_child_findall)
  show ?thesis
  proof (cases "findall ''rehearsal'' dt")
    case Nil
    then have "find_child ''rehearsal'' dt = None" by (simp add: find_child_findall)
    with dt Nil assms(1) show ?thesis
      by (simp add: direction_records_def spec_direction_markers_def)
  next
    case (Cons r rs)
    with assms(2) have rs: "rs = []" by simp
    from Cons have "find_child ''rehearsal'' dt = Some r" by (simp add: find_child_findall)
    with dt Cons rs assms(1) show ?thesis
      by (simp add: direction_records_def spec_direction_markers_def)
  qed
qed

lemma measure_records_format:
  assumes "\<forall>d\<in>set (findall ''direction'' m).
             \<exists>dt. findall ''direction-type'' d = [dt] \<and> length (findall ''rehearsal'' dt) \<le> 1"
  shows "measure_records m = spec_measure_markers m"
proof -
  have "map (direction_records m) (findall ''direction'' m)
      = map (spec_direction_markers m) (findall ''direction'' m)"
  proof (rule map_cong [OF refl])
    fix d assume "d \<in> set (findall ''direction'' m)"
    with assms obtain dt where "findall ''direction-type'' d = [dt]"
      and "length (findall ''rehearsal'' dt) \<le> 1" by blast
    then show "direction_records m d = spec_direction_markers m d"
      by (rule direction_records_format)
  qed
  then show ?thesis by (simp only: measure_records_def spec_measure_markers_def)
qed

lemma part_records_format:
  assumes "\<forall>m\<in>set (findall ''measure'' part). \<forall>d\<in>set (findall ''direction'' m).
             \<exists>dt. findall ''direction-type'' d = [dt] \<and> length (findall ''rehearsal'' dt) \<le> 1"
  shows "part_records part = spec_markers part"
proof -
  have "map measure_records (findall ''measure'' part)
      = map spec_measure_markers (findall ''measure'' part)"
  proof (rule map_cong [OF refl])
    fix m assume "m \<in> set (findall ''measure'' part)"
    with assms have "\<forall>d\<in>set (findall ''direction'' m).
             \<exists>dt. findall ''direction-type'' d = [dt] \<and> length (findall ''rehearsal'' dt) \<le> 1"
      by blast
    then show "measure_records m = spec_measure_markers m" by (rule measure_records_format)
  qed
  then show ?thesis by (simp only: part_records_def spec_markers_def)
qed

lemma format_has_direction_type:
  assumes "\<forall>m\<in>set (findall ''measure'' part). \<forall>d\<in>set (findall ''direction'' m).
             \<exists>dt. findall ''direction-type'' d = [dt] \<and> length (findall ''rehearsal'' dt) \<le> 1"
  shows "\<forall>m\<in>set (findall ''measure'' part).
           \<forall>d\<in>set (findall ''direction'' m). find_child ''direction-type'' d \<noteq> None"
proof (intro ballI)
  fix m d assume "m \<in> set (findall ''measure'' part)" and "d \<in> set (findall ''direction'' m)"
  with assms obtain dt where "findall ''direction-type'' d = [dt]" by blast
  then show "find_child ''direction-type'' d \<noteq> None" by (simp add: find_child_findall)
qed

lemma markers_of_tree_format:
  assumes "find_child ''part'' tree = Some part"
    and "\<forall>m\<in>set (findall ''measure'' part). \<forall>d\<in>set (findall ''direction'' m).
           \<exists>dt. findall ''direction-type'' d = [dt] \<and> length (findall ''rehearsal'' dt) \<le> 1"
  shows "markers_of_tree tree = Inr (spec_markers part)"
  using markers_of_tree_wf [OF assms(1) format_has_direction_type [OF assms(2)]]
    part_records_format [OF assms(2)]
  by simp

section \<open>Paths of the Project Store Adapter\<close>

lemma take4_append_als:
  assumes "take 4 (xs @ ''.als'') = ''.als''" and "xs \<noteq> []"
  shows "take 4 xs = ''.als''"
proof -
  from assms(2) have "0 < length xs" by simp
  then consider "length xs \<ge> 4" | "length xs = 3" | "length xs = 2" | "length xs = 1"
    by arith
  then show ?thesis
  proof cases
    case 1
    with assms(1) show ?thesis by simp
  next
    case 2
    then obtain a b c where "xs = [a, b, c]"
      by (cases xs; cases "tl xs"; cases "tl (tl xs)") auto
    with assms(1) show ?thesis by simp
  next
    case 3
    then obtain a b where "xs = [a, b]"
      by (cases xs; cases "tl xs") auto
    with assms(1) show ?thesis by simp
  next
    case 4
    then obtain a where "xs = [a]" by (cases xs) auto
    with assms(1) show ?thesis by simp
  qed
qed

lemma str_replace_final_extension:
  assumes "\<forall>i. take 4 (drop i stem) \<noteq> ''.als''"
  shows "str_replace ''.als'' '''' (stem @ ''.als'') = stem"
  using assms
proof (induction stem)
  case Nil
  show ?case by simp
next
  case (Cons c cs)
  from Cons.prems have here: "take 4 (c # cs) \<noteq> ''.als''" by (metis drop0)
  have rest: "\<forall>i. take 4 (drop i cs) \<noteq> ''.als''"
  proof
    fix i from Cons.prems have "take 4 (drop (Suc i) (c # cs)) \<noteq> ''.als''" by blast
    then show "take 4 (drop i cs) \<noteq> ''.als''" by simp
  qed
  have len: "length ''.als'' = (4::nat)" by simp
  have "take 4 ((c # cs) @ ''.als'') \<noteq> ''.als''"
    using here take4_append_als [of "c # cs"] by blast
  then have ne: "(take (length ''.als'') (c # (cs @ ''.als'')) = ''.als'') = False"
    by (simp only: len append_Cons)
  have "str_replace ''.als'' '''' (c # (cs @ ''.als'')) = c # str_replace ''.als'' '''' (cs @ ''.als'')"
    by (subst str_replace.simps(2)) (simp only: ne simp_thms if_False)
  with Cons.IH [OF rest] show ?case by simp
qed

lemma no_dot_no_als:
  assumes "CHR ''.'' \<notin> set stem"
  shows "\<forall>i. take 4 (drop i stem) \<noteq> ''.als''"
proof
  fix i
  show "take 4 (drop i stem) \<noteq> ''.als''"
  proof
    assume "take 4 (drop i stem) = ''.als''"
    then have "CHR ''.'' \<in> set (take 4 (drop i stem))" by simp
    then have "CHR ''.'' \<in> set stem"
      by (meson in_set_takeD in_set_dropD)
    with assms show False by simp
  qed
qed

lemma basename_of_als: "basename_of (stem @ ''.als'') = basename_of stem @ ''.als''"
  by (simp add: basename_of_def)

lemma project_path_names_a_file: "\<not> names_directory (stem @ ''.als'')"
proof -
  have "length (basename_of (stem @ ''.als'')) \<ge> 4" by (simp add: basename_of_als)
  then show ?thesis by (auto simp: names_directory_def)
qed

lemma open_for_writing_project:
  "open_for_writing fs (stem @ ''.als'') content = (None, fs(stem @ ''.als'' \<mapsto> content))"
  by (simp add: open_for_writing_def project_path_names_a_file)

lemma open_for_writing_cases:
  "open_for_writing fs path content =
     (if names_directory path
      then (Some (if path = [] then FileNotFoundError path else IsADirectoryError path), fs)
      else (None, fs(path \<mapsto> content)))"
  by (auto simp: open_for_writing_def names_directory_def basename_of_def)

section \<open>Applying the Locator Splicer twice\<close>

lemma remove_first_append:
  "remove_first P (xs @ ys) =
     (if \<exists>x\<in>set xs. P x then remove_first P xs @ ys else xs @ remove_first P ys)"
  by (induction xs) auto

lemma find_append_no_match:
  "\<forall>y\<in>set xs. \<not> P y \<Longrightarrow> List.find P (xs @ ys) = List.find P ys"
  by (induction xs) auto

lemma update_first_twice:
  assumes "\<And>x. P x \<Longrightarrow> P (f x)" and "\<And>x. g (f x) = g x"
  shows "update_first P g (update_first P f xs) = update_first P g xs"
  using assms by (induction xs) auto

lemma set_live_set_twice: "set_live_set (set_live_set root a) b = set_live_set root b"
proof -
  have "update_first (\<lambda>c. tag c = ''LiveSet'') (\<lambda>live_set. set_children live_set b)
          (update_first (\<lambda>c. tag c = ''LiveSet'') (\<lambda>live_set. set_children live_set a)
             (children root))
        = update_first (\<lambda>c. tag c = ''LiveSet'') (\<lambda>live_set. set_children live_set b)
            (children root)"
    by (rule update_first_twice) (simp_all add: set_children_def)
  then show ?thesis by (simp add: set_live_set_def set_children_def)
qed

lemma insert_locators_fresh:
  assumes "\<forall>c\<in>set cs. tag c \<noteq> ''Locators''"
  shows "insert_locators p inner cs =
           take (Suc p) cs @ [Element ''Locators'' [] None [inner]] @ drop (Suc p) cs"
proof -
  have "\<not> (\<exists>x\<in>set (take (Suc p) cs). tag x = ''Locators'')"
    using assms by (meson in_set_takeD)
  then show ?thesis
    by (simp add: insert_locators_def update_first_append append_child_def)
qed

lemma remove_stale_locators_after_insert:
  assumes "\<forall>c\<in>set cs. tag c \<noteq> ''Locators''"
  shows "remove_stale_locators (set_children live_set (insert_locators p inner cs)) = cs"
proof -
  let ?new = "Element ''Locators'' [] None [inner]"
  have pre: "\<forall>y\<in>set (take (Suc p) cs). \<not> tag y = ''Locators''"
    using assms by (meson in_set_takeD)
  have find: "List.find (\<lambda>c. tag c = ''Locators'') (take (Suc p) cs @ [?new] @ drop (Suc p) cs)
      = Some ?new"
    by (simp add: find_append_no_match [OF pre])
  have "remove_first (\<lambda>c. tag c = ''Locators'') (take (Suc p) cs @ [?new] @ drop (Suc p) cs)
      = take (Suc p) cs @ drop (Suc p) cs"
    using pre by (simp add: remove_first_append)
  then have rm: "remove_first (\<lambda>c. tag c = ''Locators'') (take (Suc p) cs @ [?new] @ drop (Suc p) cs)
      = cs"
    by (simp only: append_take_drop_id)
  show ?thesis
    unfolding insert_locators_fresh [OF assms]
    by (simp only: remove_stale_locators_def find_child_def set_children_def element.sel
        find truthy_def option.case rm) simp
qed

lemma reimport_replaces_locators:
  assumes "ms1 \<noteq> []" and "ms2 \<noteq> []"
    and "find_child ''LiveSet'' root = Some live_set"
    and "''ViewStateSessionMixerHeight'' \<in> tag ` set (children live_set)"
    and "\<forall>c\<in>set (remove_stale_locators live_set). tag c \<noteq> ''Locators''"
  shows "add_markers_to_ableton_project int_of
           (snd (add_markers_to_ableton_project int_of root ms1)) ms2
         = add_markers_to_ableton_project int_of root ms2"
proof -
  let ?cs = "remove_stale_locators live_set"
  let ?inner1 = "snd (add_locators int_of 0 ms1 (Element ''Locators'' [] None []))"
  from assms(4) have "anchor_positions ?cs \<noteq> []"
    by (simp only: anchor_positions_Nil anchor_remove_stale_locators) simp
  then obtain p ps where p: "anchor_positions ?cs = p # ps"
    by (cases "anchor_positions ?cs") auto
  let ?root1 = "set_live_set root (insert_locators p ?inner1 ?cs)"
  let ?ls1 = "set_children live_set (insert_locators p ?inner1 ?cs)"
  have first: "snd (add_markers_to_ableton_project int_of root ms1) = ?root1"
    by (simp add: splice_result [OF assms(1,3) p])
  have ls1: "find_child ''LiveSet'' ?root1 = Some ?ls1"
    using assms(3) by (rule find_child_set_live_set)
  have cs1: "remove_stale_locators ?ls1 = ?cs"
    using assms(5) by (rule remove_stale_locators_after_insert)
  have p1: "anchor_positions (remove_stale_locators ?ls1) = p # ps"
    unfolding cs1 by (rule p)
  show ?thesis
    unfolding first splice_result [OF assms(2) ls1 p1] splice_result [OF assms(2,3) p] cs1
      set_live_set_twice ..
qed

section \<open>Properties of the Locator Splicer\<close>

text \<open>
  C4. Called with an empty marker list, \<open>add_markers_to_ableton_project\<close> raises the
  exception "There is no Guitar Pro market to import!" and the tree is exactly the tree
  it was given: nothing was removed, inserted or changed.
\<close>

theorem empty_markers_rejected_tree_unchanged:
  "add_markers_to_ableton_project int_of t [] =
     (Some (Exception ''There is no Guitar Pro market to import!''), t)"
  by (simp add: add_markers_to_ableton_project_def)

text \<open>
  C1. For a non-empty marker list whose bars all convert to integers, on a tree that has
  \<open>LiveSet\<close> and the anchor, the call succeeds and the collection it fills (the last child
  of the element \<open>live_set.find("Locators")\<close> returns) holds exactly one \<open>Locator\<close> per
  marker, in input order: the i-th has \<open>Id\<close> i (counting from 1), \<open>Time\<close> equal to
  \<open>(bar - 1) * 4\<close>, \<open>Name\<close> equal to the formatted label, \<open>LomId\<close> "0", an empty
  \<open>Annotation\<close> and \<open>IsSongStart\<close> "false".
\<close>

theorem locators_built_from_markers:
  assumes "ms \<noteq> []"
    and "find_child ''LiveSet'' root = Some live_set"
    and "''ViewStateSessionMixerHeight'' \<in> tag ` set (children live_set)"
    and "map (\<lambda>m. py_int int_of (bar m)) ms = map Inr bs"
  shows "\<exists>root' live_set' collection.
           add_markers_to_ableton_project int_of root ms = (None, root')
         \<and> find_child ''LiveSet'' root' = Some live_set'
         \<and> find_child ''Locators'' live_set' = Some collection
         \<and> children collection \<noteq> []
         \<and> last (children collection) =
             Element ''Locators'' [] None
               (map (\<lambda>i. spec_locator (i + 1) ((bs ! i - 1) * 4) (py_format (marker (ms ! i))))
                  [0..<length ms])"
proof -
  let ?inner = "Element ''Locators'' [] None
               (map (\<lambda>i. spec_locator (i + 1) ((bs ! i - 1) * 4) (py_format (marker (ms ! i))))
                  [0..<length ms])"
  from assms(3) have "anchor_positions (remove_stale_locators live_set) \<noteq> []"
    by (simp only: anchor_positions_Nil anchor_remove_stale_locators) simp
  then obtain p ps where p: "anchor_positions (remove_stale_locators live_set) = p # ps"
    by (cases "anchor_positions (remove_stale_locators live_set)") auto
  have loop: "add_locators int_of 0 ms (Element ''Locators'' [] None []) = (None, ?inner)"
    using add_locators_ok [OF assms(4), of 0 "Element ''Locators'' [] None []"]
    by (simp add: set_children_def)
  let ?cs = "insert_locators p ?inner (remove_stale_locators live_set)"
  have res: "add_markers_to_ableton_project int_of root ms = (None, set_live_set root ?cs)"
    using splice_result [OF assms(1,2) p, of int_of] by (simp add: loop)
  have ls: "find_child ''LiveSet'' (set_live_set root ?cs) = Some (set_children live_set ?cs)"
    using assms(2) by (rule find_child_set_live_set)
  obtain l where l: "find_child ''Locators'' (set_children live_set ?cs) = Some (append_child l ?inner)"
    using insert_locators_find by blast
  have "children (append_child l ?inner) \<noteq> []"
    and "last (children (append_child l ?inner)) = ?inner"
    by simp_all
  with res ls l show ?thesis by blast
qed

theorem locators_built_from_markers_witness:
  "\<exists>root' live_set' collection.
     add_markers_to_ableton_project int_of_decimal
       (Element ''Ableton'' [] None
          [Element ''LiveSet'' [] None
             [Element ''Tracks'' [] None [],
              Element ''ViewStateSessionMixerHeight'' [(''Value'', ''120'')] None [],
              Element ''SomeOtherNode'' [] None []]])
       [\<lparr>bar = Some ''3'', marker = Some ''Chorus''\<rparr>, \<lparr>bar = Some ''5'', marker = Some ''Solo''\<rparr>]
       = (None, root')
     \<and> find_child ''LiveSet'' root' = Some live_set'
     \<and> find_child ''Locators'' live_set' = Some collection
     \<and> children collection \<noteq> []
     \<and> last (children collection) =
         Element ''Locators'' [] None [spec_locator 1 8 ''Chorus'', spec_locator 2 16 ''Solo'']"
proof -
  let ?live_set = "Element ''LiveSet'' [] None
             [Element ''Tracks'' [] None [],
              Element ''ViewStateSessionMixerHeight'' [(''Value'', ''120'')] None [],
              Element ''SomeOtherNode'' [] None []]"
  let ?ms = "[\<lparr>bar = Some ''3'', marker = Some ''Chorus''\<rparr>,
              \<lparr>bar = Some ''5'', marker = Some ''Solo''\<rparr>]"
  have h1: "?ms \<noteq> []" by simp
  have h2: "find_child ''LiveSet'' (Element ''Ableton'' [] None [?live_set]) = Some ?live_set"
    by (simp add: find_child_def)
  have h3: "''ViewStateSessionMixerHeight'' \<in> tag ` set (children ?live_set)" by simp
  have h4: "map (\<lambda>m. py_int int_of_decimal (bar m)) ?ms = map Inr [3, 5]"
    by (simp add: py_int_def int_of_decimal_def digit_val_def)
  have upt: "[0..<length ?ms] = [0, 1]" by (simp add: upt_rec)
  from locators_built_from_markers [OF h1 h2 h3 h4]
  show ?thesis unfolding upt by (simp add: py_format_def numeral_2_eq_2)
qed

text \<open>
  C7. When the call succeeds, the children of \<open>LiveSet\<close> change as follows, compared with
  the children left by lines 91 to 93: there is exactly one more child; the child at the
  position after the first \<open>ViewStateSessionMixerHeight\<close> is named \<open>Locators\<close>; the anchor
  itself and every child after the new one are unchanged and in the same order; the
  children before keep their tags, and those not named \<open>Locators\<close> are unchanged. The
  children of \<open>LiveSet\<close> that are not named \<open>Locators\<close> are the same, in the same order, as
  before the call.
\<close>

theorem locators_inserted_after_anchor:
  assumes "fst (add_markers_to_ableton_project int_of root ms) = None"
  shows "\<exists>live_set live_set' p.
      find_child ''LiveSet'' root = Some live_set
    \<and> find_child ''LiveSet'' (snd (add_markers_to_ableton_project int_of root ms)) = Some live_set'
    \<and> p < length (remove_stale_locators live_set)
    \<and> tag (remove_stale_locators live_set ! p) = ''ViewStateSessionMixerHeight''
    \<and> (\<forall>i<p. tag (remove_stale_locators live_set ! i) \<noteq> ''ViewStateSessionMixerHeight'')
    \<and> length (children live_set') = Suc (length (remove_stale_locators live_set))
    \<and> children live_set' ! p = remove_stale_locators live_set ! p
    \<and> tag (children live_set' ! Suc p) = ''Locators''
    \<and> drop (Suc (Suc p)) (children live_set') = drop (Suc p) (remove_stale_locators live_set)
    \<and> map tag (take (Suc p) (children live_set')) =
        map tag (take (Suc p) (remove_stale_locators live_set))
    \<and> (\<forall>i\<le>p. tag (remove_stale_locators live_set ! i) \<noteq> ''Locators''
          \<longrightarrow> children live_set' ! i = remove_stale_locators live_set ! i)
    \<and> filter (\<lambda>c. tag c \<noteq> ''Locators'') (children live_set') =
        filter (\<lambda>c. tag c \<noteq> ''Locators'') (children live_set)"
proof -
  from assms have ne: "ms \<noteq> []"
    by (auto simp: splice_error_cases)
  from assms ne obtain live_set where ls: "find_child ''LiveSet'' root = Some live_set"
    by (cases "find_child ''LiveSet'' root") (auto simp: splice_error_cases)
  let ?cs1 = "remove_stale_locators live_set"
  from assms ne ls have "anchor_positions ?cs1 \<noteq> []"
    by (auto simp: splice_error_cases split: if_splits)
  then obtain p ps where p: "anchor_positions ?cs1 = p # ps"
    by (cases "anchor_positions ?cs1") auto
  from anchor_positions_Cons [OF p]
  have plen: "p < length ?cs1" and ptag: "tag (?cs1 ! p) = ''ViewStateSessionMixerHeight''"
    and pfirst: "\<forall>i<p. tag (?cs1 ! i) \<noteq> ''ViewStateSessionMixerHeight''"
    by simp_all
  let ?inner = "snd (add_locators int_of 0 ms (Element ''Locators'' [] None []))"
  let ?cs3 = "insert_locators p ?inner ?cs1"
  have res: "snd (add_markers_to_ableton_project int_of root ms) = set_live_set root ?cs3"
    by (simp add: splice_result [OF ne ls p])
  have ls': "find_child ''LiveSet'' (snd (add_markers_to_ableton_project int_of root ms))
      = Some (set_children live_set ?cs3)"
    unfolding res using ls by (rule find_child_set_live_set)
  have ch: "children (set_children live_set ?cs3) = ?cs3" by (simp add: set_children_def)
  have len: "length ?cs3 = Suc (length ?cs1)" using plen by (rule insert_locators_length)
  have tags: "map tag ?cs3 = map tag (take (Suc p) ?cs1) @ [''Locators''] @ map tag (drop (Suc p) ?cs1)"
    by (rule insert_locators_tags)
  have ltake: "length (map tag (take (Suc p) ?cs1)) = Suc p" using plen by simp
  have "map tag ?cs3 ! Suc p = ''Locators''"
    unfolding tags using ltake by (simp add: nth_append)
  then have newtag: "tag (?cs3 ! Suc p) = ''Locators''" using len plen by simp
  have "take (Suc p) (map tag ?cs3) = map tag (take (Suc p) ?cs1)"
    unfolding tags using ltake by simp
  then have taketags: "map tag (take (Suc p) ?cs3) = map tag (take (Suc p) ?cs1)"
    by (simp add: take_map)
  have before: "\<forall>i\<le>p. tag (?cs1 ! i) \<noteq> ''Locators'' \<longrightarrow> ?cs3 ! i = ?cs1 ! i"
    using insert_locators_nth_before [OF plen] by blast
  have "tag (?cs1 ! p) \<noteq> ''Locators''" using ptag by simp
  with before have atp: "?cs3 ! p = ?cs1 ! p" by blast
  have dropeq: "drop (Suc (Suc p)) ?cs3 = drop (Suc p) ?cs1"
    using plen by (rule insert_locators_drop)
  have filt: "filter (\<lambda>c. tag c \<noteq> ''Locators'') ?cs3 =
      filter (\<lambda>c. tag c \<noteq> ''Locators'') (children live_set)"
    by (simp only: insert_locators_filter filter_remove_stale_locators)
  show ?thesis
    apply (rule exI [of _ live_set])
    apply (rule exI [of _ "set_children live_set ?cs3"])
    apply (rule exI [of _ p])
    unfolding ch
    using ls ls' plen ptag pfirst len atp newtag dropeq taketags before filt
    by (intro conjI) assumption+
qed

theorem locators_inserted_after_anchor_witness:
  "fst (add_markers_to_ableton_project int_of_decimal
          (Element ''Ableton'' [] None
             [Element ''LiveSet'' [] None
                [Element ''Tracks'' [] None [],
                 Element ''ViewStateSessionMixerHeight'' [(''Value'', ''120'')] None [],
                 Element ''SomeOtherNode'' [] None []]])
          [\<lparr>bar = Some ''3'', marker = Some ''Chorus''\<rparr>]) = None
   \<and> (\<exists>live_set'.
        find_child ''LiveSet''
          (snd (add_markers_to_ableton_project int_of_decimal
             (Element ''Ableton'' [] None
                [Element ''LiveSet'' [] None
                   [Element ''Tracks'' [] None [],
                    Element ''ViewStateSessionMixerHeight'' [(''Value'', ''120'')] None [],
                    Element ''SomeOtherNode'' [] None []]])
             [\<lparr>bar = Some ''3'', marker = Some ''Chorus''\<rparr>])) = Some live_set'
      \<and> filter (\<lambda>c. tag c \<noteq> ''Locators'') (children live_set') =
          [Element ''Tracks'' [] None [],
           Element ''ViewStateSessionMixerHeight'' [(''Value'', ''120'')] None [],
           Element ''SomeOtherNode'' [] None []])"
proof -
  let ?live_set = "Element ''LiveSet'' [] None
                [Element ''Tracks'' [] None [],
                 Element ''ViewStateSessionMixerHeight'' [(''Value'', ''120'')] None [],
                 Element ''SomeOtherNode'' [] None []]"
  let ?root = "Element ''Ableton'' [] None [?live_set]"
  let ?ms = "[\<lparr>bar = Some ''3'', marker = Some ''Chorus''\<rparr>]"
  have ok: "fst (add_markers_to_ableton_project int_of_decimal ?root ?ms) = None"
    by code_simp
  have found: "find_child ''LiveSet'' ?root = Some live_set \<Longrightarrow> live_set = ?live_set"
    for live_set by (simp add: find_child_def)
  from locators_inserted_after_anchor [OF ok] show ?thesis
    apply (elim exE conjE)
    subgoal for live_set live_set' p
      apply (rule conjI [OF ok])
      apply (rule exI [of _ live_set'])
      apply (drule found)
      apply simp
      done
    done
qed

text \<open>
  C8. With a non-empty marker list, the call fails with \<open>AttributeError\<close> exactly when the
  root has no child named \<open>LiveSet\<close> (\<open>find\<close> returns \<open>None\<close> and line 91 calls a method
  on it), and with \<open>IndexError\<close> exactly when \<open>LiveSet\<close> exists and has no child named
  \<open>ViewStateSessionMixerHeight\<close> (line 97 indexes an empty list). These two exceptions are
  the structure errors: no other failure of the function raises either of them, so each
  identifies its cause. With an empty marker list the emptiness test of line 87 comes
  first.
\<close>

theorem structure_errors:
  "(fst (add_markers_to_ableton_project int_of root ms) = Some AttributeError
      \<longleftrightarrow> ms \<noteq> [] \<and> find_child ''LiveSet'' root = None)
   \<and> (fst (add_markers_to_ableton_project int_of root ms) = Some IndexError
      \<longleftrightarrow> ms \<noteq> [] \<and> (\<exists>live_set. find_child ''LiveSet'' root = Some live_set
            \<and> ''ViewStateSessionMixerHeight'' \<notin> tag ` set (children live_set)))"
proof (cases "ms = []")
  case True
  then show ?thesis by (simp add: splice_error_cases)
next
  case ne: False
  show ?thesis
  proof (cases "find_child ''LiveSet'' root")
    case None
    with ne show ?thesis by (simp add: splice_error_cases)
  next
    case (Some live_set)
    have loop: "fst (add_locators int_of 0 ms (Element ''Locators'' [] None [])) \<noteq> Some AttributeError"
      "fst (add_locators int_of 0 ms (Element ''Locators'' [] None [])) \<noteq> Some IndexError"
      using add_locators_errors [of int_of 0 ms "Element ''Locators'' [] None []"] by auto
    have anchor: "anchor_positions (remove_stale_locators live_set) = [] \<longleftrightarrow>
        ''ViewStateSessionMixerHeight'' \<notin> tag ` set (children live_set)"
      by (simp only: anchor_positions_Nil anchor_remove_stale_locators)
    show ?thesis
    proof (cases "anchor_positions (remove_stale_locators live_set) = []")
      case True
      with ne Some anchor show ?thesis by (simp add: splice_error_cases)
    next
      case False
      with ne Some anchor loop show ?thesis by (simp add: splice_error_cases)
    qed
  qed
qed

theorem structure_errors_witness:
  "fst (add_markers_to_ableton_project int_of_decimal
          (Element ''Ableton'' [] None [Element ''Other'' [] None []])
          [\<lparr>bar = Some ''1'', marker = Some ''Intro''\<rparr>]) = Some AttributeError
   \<and> fst (add_markers_to_ableton_project int_of_decimal
          (Element ''Ableton'' [] None
             [Element ''LiveSet'' [] None [Element ''Tracks'' [] None []]])
          [\<lparr>bar = Some ''1'', marker = Some ''Intro''\<rparr>]) = Some IndexError"
proof -
  have a: "find_child ''LiveSet'' (Element ''Ableton'' [] None [Element ''Other'' [] None []]) = None"
    by (simp add: find_child_def)
  have b: "find_child ''LiveSet''
             (Element ''Ableton'' [] None [Element ''LiveSet'' [] None [Element ''Tracks'' [] None []]])
           = Some (Element ''LiveSet'' [] None [Element ''Tracks'' [] None []])"
    by (simp add: find_child_def)
  show ?thesis
    using structure_errors [of int_of_decimal "Element ''Ableton'' [] None [Element ''Other'' [] None []]"
        "[\<lparr>bar = Some ''1'', marker = Some ''Intro''\<rparr>]"]
      structure_errors [of int_of_decimal
        "Element ''Ableton'' [] None [Element ''LiveSet'' [] None [Element ''Tracks'' [] None []]]"
        "[\<lparr>bar = Some ''1'', marker = Some ''Intro''\<rparr>]"]
    by (simp add: a b)
qed

text \<open>
  C3. The comment on line 92 says the \<open>Locators\<close> element is removed "in case it exists",
  but the test on line 91 is the truth value of the element, which is false for an element
  without children. On a \<open>LiveSet\<close> whose \<open>Locators\<close> child is empty, the call keeps that
  child and inserts a second \<open>Locators\<close> element before it: the result has two.
\<close>

theorem childless_locators_is_not_removed:
  "add_markers_to_ableton_project int_of_decimal
     (Element ''Ableton'' [] None
        [Element ''LiveSet'' [] None
           [Element ''ViewStateSessionMixerHeight'' [(''Value'', ''120'')] None [],
            Element ''Locators'' [] None [],
            Element ''SomeOtherNode'' [] None []]])
     [\<lparr>bar = Some ''1'', marker = Some ''Intro''\<rparr>]
   = (None,
      Element ''Ableton'' [] None
        [Element ''LiveSet'' [] None
           [Element ''ViewStateSessionMixerHeight'' [(''Value'', ''120'')] None [],
            Element ''Locators'' [] None
              [Element ''Locators'' [] None
                 [Element ''Locator'' [(''Id'', ''1'')] None
                    [Element ''LomId'' [(''Value'', ''0'')] None [],
                     Element ''Time'' [(''Value'', ''0'')] None [],
                     Element ''Name'' [(''Value'', ''Intro'')] None [],
                     Element ''Annotation'' [(''Value'', '''')] None [],
                     Element ''IsSongStart'' [(''Value'', ''false'')] None []]]],
            Element ''Locators'' [] None [],
            Element ''SomeOtherNode'' [] None []]])"
  by code_simp

section \<open>Properties of the Marker Extractor\<close>

text \<open>
  C2. For a notation file of the format of spec section 6 (the parsed tree has a \<open>part\<close>
  child; every \<open>direction\<close> of every \<open>measure\<close> of the part has one \<open>direction-type\<close>
  child, which holds at most one \<open>rehearsal\<close> node), \<open>extract_marker_from_gp_xml\<close>
  returns one record per rehearsal node: for each measure in document order and each of
  its directions in order whose direction-type child contains a rehearsal node, the
  record with the measure's \<open>number\<close> attribute and the rehearsal node's text. A measure
  contributes zero, one or several records.
\<close>

theorem extraction_follows_document_order:
  assumes "fs gp_xml_file = Some content"
    and "xml_parse content = Inr tree"
    and "find_child ''part'' tree = Some part"
    and "\<forall>m\<in>set (findall ''measure'' part). \<forall>d\<in>set (findall ''direction'' m).
           \<exists>dt. findall ''direction-type'' d = [dt] \<and> length (findall ''rehearsal'' dt) \<le> 1"
  shows "extract_marker_from_gp_xml xml_parse fs gp_xml_file = Inr (spec_markers part)"
proof -
  have "extract_marker_from_gp_xml xml_parse fs gp_xml_file = markers_of_tree tree"
    using assms(1,2) by (simp add: extract_marker_from_gp_xml_def)
  also have "\<dots> = Inr (spec_markers part)"
    using assms(3,4) by (rule markers_of_tree_format)
  finally show ?thesis .
qed

theorem extraction_follows_document_order_witness:
  "extract_marker_from_gp_xml
     (\<lambda>content. Inr (Element ''score-partwise'' [] None
        [Element ''part'' [(''id'', ''P1'')] None
           [Element ''measure'' [(''number'', ''1'')] None
              [Element ''direction'' [] None
                 [Element ''direction-type'' [] None [Element ''rehearsal'' [] (Some ''Intro'') []]],
               Element ''note'' [] None []],
            Element ''measure'' [(''number'', ''2'')] None [Element ''note'' [] None []],
            Element ''measure'' [(''number'', ''3'')] None
              [Element ''direction'' [] None
                 [Element ''direction-type'' [] None [Element ''words'' [] (Some ''loud'') []]],
               Element ''direction'' [] None
                 [Element ''direction-type'' [] None [Element ''rehearsal'' [] (Some ''Verse'') []]],
               Element ''direction'' [] None
                 [Element ''direction-type'' [] None [Element ''rehearsal'' [] (Some ''Riff'') []]]]]]))
     [''song.xml'' \<mapsto> []] ''song.xml''
   = Inr [\<lparr>bar = Some ''1'', marker = Some ''Intro''\<rparr>,
          \<lparr>bar = Some ''3'', marker = Some ''Verse''\<rparr>,
          \<lparr>bar = Some ''3'', marker = Some ''Riff''\<rparr>]"
proof -
  let ?part = "Element ''part'' [(''id'', ''P1'')] None
           [Element ''measure'' [(''number'', ''1'')] None
              [Element ''direction'' [] None
                 [Element ''direction-type'' [] None [Element ''rehearsal'' [] (Some ''Intro'') []]],
               Element ''note'' [] None []],
            Element ''measure'' [(''number'', ''2'')] None [Element ''note'' [] None []],
            Element ''measure'' [(''number'', ''3'')] None
              [Element ''direction'' [] None
                 [Element ''direction-type'' [] None [Element ''words'' [] (Some ''loud'') []]],
               Element ''direction'' [] None
                 [Element ''direction-type'' [] None [Element ''rehearsal'' [] (Some ''Verse'') []]],
               Element ''direction'' [] None
                 [Element ''direction-type'' [] None [Element ''rehearsal'' [] (Some ''Riff'') []]]]]"
  let ?tree = "Element ''score-partwise'' [] None [?part]"
  have h1: "[''song.xml'' \<mapsto> ([]::byte list)] ''song.xml'' = Some []" by simp
  have h3: "find_child ''part'' ?tree = Some ?part" by (simp add: find_child_def)
  have h4: "\<forall>m\<in>set (findall ''measure'' ?part). \<forall>d\<in>set (findall ''direction'' m).
           \<exists>dt. findall ''direction-type'' d = [dt] \<and> length (findall ''rehearsal'' dt) \<le> 1"
    by (auto simp: findall_def)
  have spec: "spec_markers ?part = [\<lparr>bar = Some ''1'', marker = Some ''Intro''\<rparr>,
          \<lparr>bar = Some ''3'', marker = Some ''Verse''\<rparr>,
          \<lparr>bar = Some ''3'', marker = Some ''Riff''\<rparr>]"
    by (simp add: spec_markers_def spec_measure_markers_def spec_direction_markers_def
        findall_def get_attr_def)
  from extraction_follows_document_order
         [where fs = "[''song.xml'' \<mapsto> []]" and gp_xml_file = "''song.xml''"
            and content = "[]" and xml_parse = "\<lambda>content. Inr ?tree" and tree = ?tree
            and part = ?part, OF h1 refl h3 h4]
  show ?thesis unfolding spec .
qed

text \<open>
  Outside that format the loops and the specification's wording part ways. A direction
  without a \<open>direction-type\<close> child makes the extraction raise \<open>AttributeError\<close>
  (\<open>None.findall\<close>); a measure whose first direction has no children is skipped, since
  line 65 tests the truth value of an element; and of several rehearsal nodes in one
  \<open>direction-type\<close> only the first is recorded.
\<close>

lemma extraction_fails_without_direction_type:
  "spec_markers (Element ''part'' [] None
           [Element ''measure'' [(''number'', ''1'')] None
              [Element ''direction'' [] None
                 [Element ''direction-type'' [] None [Element ''rehearsal'' [] (Some ''A'') []]],
               Element ''direction'' [] None []]])
       = [\<lparr>bar = Some ''1'', marker = Some ''A''\<rparr>]
   \<and> markers_of_tree (Element ''score-partwise'' [] None
        [Element ''part'' [] None
           [Element ''measure'' [(''number'', ''1'')] None
              [Element ''direction'' [] None
                 [Element ''direction-type'' [] None [Element ''rehearsal'' [] (Some ''A'') []]],
               Element ''direction'' [] None []]]])
       = Inl AttributeError"
  by (simp add: markers_of_tree_def markers_of_measure_def
      spec_markers_def spec_measure_markers_def spec_direction_markers_def
      findall_def find_child_def get_attr_def truthy_def)

lemma childless_first_direction_skips_measure:
  "spec_markers (Element ''part'' [] None
           [Element ''measure'' [(''number'', ''1'')] None
              [Element ''direction'' [] None [],
               Element ''direction'' [] None
                 [Element ''direction-type'' [] None [Element ''rehearsal'' [] (Some ''A'') []]]]])
       = [\<lparr>bar = Some ''1'', marker = Some ''A''\<rparr>]
   \<and> markers_of_tree (Element ''score-partwise'' [] None
        [Element ''part'' [] None
           [Element ''measure'' [(''number'', ''1'')] None
              [Element ''direction'' [] None [],
               Element ''direction'' [] None
                 [Element ''direction-type'' [] None [Element ''rehearsal'' [] (Some ''A'') []]]]]])
       = Inr []"
  by (simp add: markers_of_tree_def markers_of_measure_def
      spec_markers_def spec_measure_markers_def spec_direction_markers_def
      findall_def find_child_def get_attr_def truthy_def)

lemma second_rehearsal_is_not_recorded:
  "spec_markers (Element ''part'' [] None
           [Element ''measure'' [(''number'', ''1'')] None
              [Element ''direction'' [] None
                 [Element ''direction-type'' [] None
                    [Element ''rehearsal'' [] (Some ''A'') [],
                     Element ''rehearsal'' [] (Some ''B'') []]]]])
       = [\<lparr>bar = Some ''1'', marker = Some ''A''\<rparr>, \<lparr>bar = Some ''1'', marker = Some ''B''\<rparr>]
   \<and> markers_of_tree (Element ''score-partwise'' [] None
        [Element ''part'' [] None
           [Element ''measure'' [(''number'', ''1'')] None
              [Element ''direction'' [] None
                 [Element ''direction-type'' [] None
                    [Element ''rehearsal'' [] (Some ''A'') [],
                     Element ''rehearsal'' [] (Some ''B'') []]]]]])
       = Inr [\<lparr>bar = Some ''1'', marker = Some ''A''\<rparr>]"
  by (simp add: markers_of_tree_def markers_of_measure_def
      spec_markers_def spec_measure_markers_def spec_direction_markers_def
      findall_def find_child_def get_attr_def truthy_def)

text \<open>
  C9. If a direction of a measure has a \<open>direction-type\<close> child whose \<open>rehearsal\<close> node
  has no text, the extracted list holds a record for it whose \<open>marker\<close> is \<open>None\<close>
  (\<open>rehearsal.text\<close> is taken as it is). And for a marker whose \<open>marker\<close> is \<open>None\<close>,
  \<open>add_markers_to_ableton_project\<close> writes the \<open>Name\<close> of its Locator with
  \<open>Value="None"\<close>, the result of \<open>"{}".format(None)\<close>, not the empty string.
\<close>

theorem missing_text_becomes_name_None:
  assumes "fs gp_xml_file = Some content"
    and "xml_parse content = Inr tree"
    and "find_child ''part'' tree = Some part"
    and "\<forall>m\<in>set (findall ''measure'' part).
           \<forall>d\<in>set (findall ''direction'' m). find_child ''direction-type'' d \<noteq> None"
    and "m \<in> set (findall ''measure'' part)"
    and "d \<in> set (findall ''direction'' m)"
    and "find_child ''direction-type'' d = Some dt"
    and "find_child ''rehearsal'' dt = Some r"
    and "etext r = None"
    and "ms \<noteq> []"
    and "find_child ''LiveSet'' root = Some live_set"
    and "''ViewStateSessionMixerHeight'' \<in> tag ` set (children live_set)"
    and "map (\<lambda>m. py_int int_of (bar m)) ms = map Inr bs"
    and "i < length ms"
    and "marker (ms ! i) = None"
  shows "(\<exists>records. extract_marker_from_gp_xml xml_parse fs gp_xml_file = Inr records
            \<and> \<lparr>bar = get_attr ''number'' m, marker = None\<rparr> \<in> set records)
       \<and> (\<exists>root' live_set' collection.
             add_markers_to_ableton_project int_of root ms = (None, root')
           \<and> find_child ''LiveSet'' root' = Some live_set'
           \<and> find_child ''Locators'' live_set' = Some collection
           \<and> children collection \<noteq> []
           \<and> find_child ''Name'' (children (last (children collection)) ! i)
               = Some (Element ''Name'' [(''Value'', ''None'')] None []))"
proof -
  have "extract_marker_from_gp_xml xml_parse fs gp_xml_file = markers_of_tree tree"
    using assms(1,2) by (simp add: extract_marker_from_gp_xml_def)
  also have "\<dots> = Inr (part_records part)"
    using assms(3,4) by (rule markers_of_tree_wf)
  finally have ex: "extract_marker_from_gp_xml xml_parse fs gp_xml_file = Inr (part_records part)" .
  have "\<lparr>bar = get_attr ''number'' m, marker = etext r\<rparr> \<in> set (part_records part)"
    using assms(5-8) by (rule part_records_member)
  with assms(9) have mem: "\<lparr>bar = get_attr ''number'' m, marker = None\<rparr> \<in> set (part_records part)"
    by simp
  let ?locs = "map (\<lambda>i. spec_locator (i + 1) ((bs ! i - 1) * 4) (py_format (marker (ms ! i))))
                  [0..<length ms]"
  let ?inner = "Element ''Locators'' [] None ?locs"
  from assms(12) have "anchor_positions (remove_stale_locators live_set) \<noteq> []"
    by (simp only: anchor_positions_Nil anchor_remove_stale_locators) simp
  then obtain p ps where p: "anchor_positions (remove_stale_locators live_set) = p # ps"
    by (cases "anchor_positions (remove_stale_locators live_set)") auto
  have loop: "add_locators int_of 0 ms (Element ''Locators'' [] None []) = (None, ?inner)"
    using add_locators_ok [OF assms(13), of 0 "Element ''Locators'' [] None []"]
    by (simp add: set_children_def)
  let ?cs = "insert_locators p ?inner (remove_stale_locators live_set)"
  have res: "add_markers_to_ableton_project int_of root ms = (None, set_live_set root ?cs)"
    using splice_result [OF assms(10,11) p, of int_of] by (simp add: loop)
  have ls: "find_child ''LiveSet'' (set_live_set root ?cs) = Some (set_children live_set ?cs)"
    using assms(11) by (rule find_child_set_live_set)
  obtain l where l: "find_child ''Locators'' (set_children live_set ?cs) = Some (append_child l ?inner)"
    using insert_locators_find by blast
  have "children (last (children (append_child l ?inner))) ! i = ?locs ! i" by simp
  also have "\<dots> = spec_locator (i + 1) ((bs ! i - 1) * 4) ''None''"
    using assms(14,15) by (simp add: py_format_def)
  finally have "find_child ''Name'' (children (last (children (append_child l ?inner))) ! i)
      = Some (Element ''Name'' [(''Value'', ''None'')] None [])"
    by (simp add: spec_locator_def find_child_def)
  moreover have "children (append_child l ?inner) \<noteq> []" by simp
  ultimately have "\<exists>root' live_set' collection.
             add_markers_to_ableton_project int_of root ms = (None, root')
           \<and> find_child ''LiveSet'' root' = Some live_set'
           \<and> find_child ''Locators'' live_set' = Some collection
           \<and> children collection \<noteq> []
           \<and> find_child ''Name'' (children (last (children collection)) ! i)
               = Some (Element ''Name'' [(''Value'', ''None'')] None [])"
    using res ls l by blast
  with ex mem show ?thesis by blast
qed

theorem missing_text_becomes_name_None_witness:
  "extract_marker_from_gp_xml
     (\<lambda>content. Inr (Element ''score-partwise'' [] None
        [Element ''part'' [] None
           [Element ''measure'' [(''number'', ''2'')] None
              [Element ''direction'' [] None
                 [Element ''direction-type'' [] None [Element ''rehearsal'' [] None []]]]]]))
     [''song.xml'' \<mapsto> []] ''song.xml''
     = Inr [\<lparr>bar = Some ''2'', marker = None\<rparr>]
   \<and> (\<exists>root' live_set' collection.
         add_markers_to_ableton_project int_of_decimal
           (Element ''Ableton'' [] None
              [Element ''LiveSet'' [] None
                 [Element ''ViewStateSessionMixerHeight'' [(''Value'', ''120'')] None []]])
           [\<lparr>bar = Some ''2'', marker = None\<rparr>] = (None, root')
       \<and> find_child ''LiveSet'' root' = Some live_set'
       \<and> find_child ''Locators'' live_set' = Some collection
       \<and> children collection \<noteq> []
       \<and> find_child ''Name'' (children (last (children collection)) ! 0)
           = Some (Element ''Name'' [(''Value'', ''None'')] None []))"
proof -
  let ?r = "Element ''rehearsal'' [] None []"
  let ?dt = "Element ''direction-type'' [] None [?r]"
  let ?d = "Element ''direction'' [] None [?dt]"
  let ?m = "Element ''measure'' [(''number'', ''2'')] None [?d]"
  let ?part = "Element ''part'' [] None [?m]"
  let ?tree = "Element ''score-partwise'' [] None [?part]"
  let ?live_set = "Element ''LiveSet'' [] None
                 [Element ''ViewStateSessionMixerHeight'' [(''Value'', ''120'')] None []]"
  let ?root = "Element ''Ableton'' [] None [?live_set]"
  let ?ms = "[\<lparr>bar = Some ''2'', marker = None\<rparr>]"
  have e: "extract_marker_from_gp_xml (\<lambda>content. Inr ?tree) [''song.xml'' \<mapsto> []] ''song.xml''
      = Inr ?ms"
    by (simp add: extract_marker_from_gp_xml_def markers_of_tree_def markers_of_measure_def
        findall_def find_child_def get_attr_def truthy_def)
  have h1: "[''song.xml'' \<mapsto> ([]::byte list)] ''song.xml'' = Some []" by simp
  have h3: "find_child ''part'' ?tree = Some ?part" by (simp add: find_child_def)
  have h4: "\<forall>m\<in>set (findall ''measure'' ?part).
           \<forall>d\<in>set (findall ''direction'' m). find_child ''direction-type'' d \<noteq> None"
    by (auto simp: findall_def find_child_def)
  have h5: "?m \<in> set (findall ''measure'' ?part)" by (simp add: findall_def)
  have h6: "?d \<in> set (findall ''direction'' ?m)" by (simp add: findall_def)
  have h7: "find_child ''direction-type'' ?d = Some ?dt" by (simp add: find_child_def)
  have h8: "find_child ''rehearsal'' ?dt = Some ?r" by (simp add: find_child_def)
  have h9: "etext ?r = None" by simp
  have h10: "?ms \<noteq> []" by simp
  have h11: "find_child ''LiveSet'' ?root = Some ?live_set" by (simp add: find_child_def)
  have h12: "''ViewStateSessionMixerHeight'' \<in> tag ` set (children ?live_set)" by simp
  have h13: "map (\<lambda>m. py_int int_of_decimal (bar m)) ?ms = map Inr [2]"
    by (simp add: py_int_def int_of_decimal_def digit_val_def)
  have h14: "0 < length ?ms" by simp
  have h15: "marker (?ms ! 0) = None" by simp
  from missing_text_becomes_name_None
         [where fs = "[''song.xml'' \<mapsto> []]" and gp_xml_file = "''song.xml''"
            and content = "[]" and xml_parse = "\<lambda>content. Inr ?tree" and tree = ?tree
            and part = ?part and m = ?m and d = ?d and dt = ?dt and r = ?r
            and ms = ?ms and root = ?root and live_set = ?live_set
            and int_of = int_of_decimal and bs = "[2]" and i = 0,
          OF h1 refl h3 h4 h5 h6 h7 h8 h9 h10 h11 h12 h13 h14 h15]
  show ?thesis using e by blast
qed

text \<open>
  C10. \<open>extract_marker_from_gp_xml\<close> does not look at the value of a measure's \<open>number\<close>
  attribute. On a file that parses, it never fails with \<open>TypeError\<close> or \<open>ValueError\<close>,
  and the \<open>bar\<close> of every record it returns is \<open>measure.get("number")\<close> of a measure of the
  part as it stands: the string, or \<open>None\<close> when the attribute is missing. The conversion
  \<open>int(marker["bar"])\<close> happens in \<open>add_markers_to_ableton_project\<close>: on a tree with
  \<open>LiveSet\<close> and the anchor, the first marker whose bar does not convert makes the call
  fail, with \<open>TypeError\<close> when the bar is \<open>None\<close> and with \<open>ValueError\<close> when \<open>int\<close>
  rejects the string.
\<close>

theorem bar_converted_only_when_splicing:
  assumes "fs gp_xml_file = Some content"
    and "xml_parse content = Inr tree"
    and "find_child ''LiveSet'' root = Some live_set"
    and "''ViewStateSessionMixerHeight'' \<in> tag ` set (children live_set)"
    and "map (\<lambda>m. py_int int_of (bar m)) pre = map Inr bs"
  shows "extract_marker_from_gp_xml xml_parse fs gp_xml_file \<noteq> Inl TypeError
       \<and> extract_marker_from_gp_xml xml_parse fs gp_xml_file \<noteq> Inl ValueError
       \<and> (\<forall>records. extract_marker_from_gp_xml xml_parse fs gp_xml_file = Inr records \<longrightarrow>
             (\<forall>r\<in>set records. \<exists>part m. find_child ''part'' tree = Some part
                 \<and> m \<in> set (findall ''measure'' part) \<and> bar r = get_attr ''number'' m))
       \<and> (bar x = None \<longrightarrow>
             fst (add_markers_to_ableton_project int_of root (pre @ x # post)) = Some TypeError)
       \<and> (\<forall>s. bar x = Some s \<and> int_of s = None \<longrightarrow>
             fst (add_markers_to_ableton_project int_of root (pre @ x # post)) = Some ValueError)"
proof -
  have ex: "extract_marker_from_gp_xml xml_parse fs gp_xml_file = markers_of_tree tree"
    using assms(1,2) by (simp add: extract_marker_from_gp_xml_def)
  have e1: "markers_of_tree tree \<noteq> Inl TypeError" "markers_of_tree tree \<noteq> Inl ValueError"
    using markers_of_tree_error [of tree] by auto
  have e2: "\<forall>records. markers_of_tree tree = Inr records \<longrightarrow>
             (\<forall>r\<in>set records. \<exists>part m. find_child ''part'' tree = Some part
                 \<and> m \<in> set (findall ''measure'' part) \<and> bar r = get_attr ''number'' m)"
    using markers_of_tree_bar [of tree] by blast
  from assms(4) have anchor: "anchor_positions (remove_stale_locators live_set) \<noteq> []"
    by (simp only: anchor_positions_Nil anchor_remove_stale_locators) simp
  have run: "fst (add_markers_to_ableton_project int_of root (pre @ x # post)) =
      fst (add_locators int_of 0 (pre @ x # post) (Element ''Locators'' [] None []))"
    using assms(3) anchor by (simp add: splice_error_cases)
  have t: "bar x = None \<longrightarrow>
      fst (add_markers_to_ableton_project int_of root (pre @ x # post)) = Some TypeError"
  proof
    assume "bar x = None"
    then have "py_int int_of (bar x) = Inl TypeError" by (simp add: py_int_def)
    from add_locators_fails [OF assms(5) this] show
      "fst (add_markers_to_ableton_project int_of root (pre @ x # post)) = Some TypeError"
      unfolding run .
  qed
  have v: "\<forall>s. bar x = Some s \<and> int_of s = None \<longrightarrow>
      fst (add_markers_to_ableton_project int_of root (pre @ x # post)) = Some ValueError"
  proof (intro allI impI)
    fix s assume "bar x = Some s \<and> int_of s = None"
    then have "py_int int_of (bar x) = Inl ValueError" by (simp add: py_int_def)
    from add_locators_fails [OF assms(5) this] show
      "fst (add_markers_to_ableton_project int_of root (pre @ x # post)) = Some ValueError"
      unfolding run .
  qed
  show ?thesis unfolding ex using e1 e2 t v by (intro conjI) assumption+
qed

theorem bar_converted_only_when_splicing_witness:
  "extract_marker_from_gp_xml
     (\<lambda>content. Inr (Element ''score-partwise'' [] None
        [Element ''part'' [] None
           [Element ''measure'' [] None
              [Element ''direction'' [] None
                 [Element ''direction-type'' [] None [Element ''rehearsal'' [] (Some ''A'') []]]],
            Element ''measure'' [(''number'', ''two'')] None
              [Element ''direction'' [] None
                 [Element ''direction-type'' [] None [Element ''rehearsal'' [] (Some ''B'') []]]]]]))
     [''song.xml'' \<mapsto> []] ''song.xml''
     = Inr [\<lparr>bar = None, marker = Some ''A''\<rparr>, \<lparr>bar = Some ''two'', marker = Some ''B''\<rparr>]
   \<and> fst (add_markers_to_ableton_project int_of_decimal
           (Element ''Ableton'' [] None
              [Element ''LiveSet'' [] None
                 [Element ''ViewStateSessionMixerHeight'' [(''Value'', ''120'')] None []]])
           [\<lparr>bar = None, marker = Some ''A''\<rparr>, \<lparr>bar = Some ''two'', marker = Some ''B''\<rparr>])
       = Some TypeError
   \<and> fst (add_markers_to_ableton_project int_of_decimal
           (Element ''Ableton'' [] None
              [Element ''LiveSet'' [] None
                 [Element ''ViewStateSessionMixerHeight'' [(''Value'', ''120'')] None []]])
           [\<lparr>bar = Some ''1'', marker = Some ''A''\<rparr>, \<lparr>bar = Some ''two'', marker = Some ''B''\<rparr>])
       = Some ValueError"
proof -
  let ?tree = "Element ''score-partwise'' [] None
        [Element ''part'' [] None
           [Element ''measure'' [] None
              [Element ''direction'' [] None
                 [Element ''direction-type'' [] None [Element ''rehearsal'' [] (Some ''A'') []]]],
            Element ''measure'' [(''number'', ''two'')] None
              [Element ''direction'' [] None
                 [Element ''direction-type'' [] None [Element ''rehearsal'' [] (Some ''B'') []]]]]]"
  let ?live_set = "Element ''LiveSet'' [] None
                 [Element ''ViewStateSessionMixerHeight'' [(''Value'', ''120'')] None []]"
  let ?root = "Element ''Ableton'' [] None [?live_set]"
  let ?a = "\<lparr>bar = None, marker = Some ''A''\<rparr>"
  let ?a1 = "\<lparr>bar = Some ''1'', marker = Some ''A''\<rparr>"
  let ?b = "\<lparr>bar = Some ''two'', marker = Some ''B''\<rparr>"
  have e: "extract_marker_from_gp_xml (\<lambda>content. Inr ?tree) [''song.xml'' \<mapsto> []] ''song.xml''
      = Inr [?a, ?b]"
    by (simp add: extract_marker_from_gp_xml_def markers_of_tree_def markers_of_measure_def
        findall_def find_child_def get_attr_def truthy_def)
  have h1: "[''song.xml'' \<mapsto> ([]::byte list)] ''song.xml'' = Some []" by simp
  have h3: "find_child ''LiveSet'' ?root = Some ?live_set" by (simp add: find_child_def)
  have h4: "''ViewStateSessionMixerHeight'' \<in> tag ` set (children ?live_set)" by simp
  have h5: "map (\<lambda>m. py_int int_of_decimal (bar m)) [] = map Inr []" by simp
  have h5': "map (\<lambda>m. py_int int_of_decimal (bar m)) [?a1] = map Inr [1]"
    by (simp add: py_int_def int_of_decimal_def digit_val_def)
  have two: "int_of_decimal ''two'' = None"
    by (simp add: int_of_decimal_def digit_val_def)
  from bar_converted_only_when_splicing
         [where fs = "[''song.xml'' \<mapsto> []]" and gp_xml_file = "''song.xml''"
            and content = "[]" and xml_parse = "\<lambda>content. Inr ?tree" and tree = ?tree
            and root = ?root and live_set = ?live_set and int_of = int_of_decimal
            and pre = "[]" and bs = "[]" and x = ?a and post = "[?b]",
          OF h1 refl h3 h4 h5]
  have t: "fst (add_markers_to_ableton_project int_of_decimal ?root [?a, ?b]) = Some TypeError"
    by simp
  from bar_converted_only_when_splicing
         [where fs = "[''song.xml'' \<mapsto> []]" and gp_xml_file = "''song.xml''"
            and content = "[]" and xml_parse = "\<lambda>content. Inr ?tree" and tree = ?tree
            and root = ?root and live_set = ?live_set and int_of = int_of_decimal
            and pre = "[?a1]" and bs = "[1]" and x = ?b and post = "[]",
          OF h1 refl h3 h4 h5']
  have v: "fst (add_markers_to_ableton_project int_of_decimal ?root [?a1, ?b]) = Some ValueError"
    using two by simp
  from e t v show ?thesis by (intro conjI)
qed

section \<open>Properties of the Project Store Adapter\<close>

text \<open>
  C6. With the extension \<open>.als\<close> appended when the path does not end with it:
  if no file is there, \<open>extract_xml_from_ableton_project\<close> raises \<open>FileNotFoundError\<close>;
  if a file is there and its first two bytes are not \<open>1f 8b\<close>, it raises the exception
  "Nothing to do here", whatever decompressing or parsing the content would give: the
  file is never read as an uncompressed document.
\<close>

theorem load_rejects_missing_and_uncompressed:
  "(fs (add_als_extension_if_it_is_not_set als_file) = None \<longrightarrow>
      extract_xml_from_ableton_project gunzip decode fromstring fs als_file =
        Inl (FileNotFoundError (''The Ableton project ''
               @ add_als_extension_if_it_is_not_set als_file @ '' does not exist'')))
   \<and> (\<forall>content. fs (add_als_extension_if_it_is_not_set als_file) = Some content
          \<and> take 2 content \<noteq> [0x1f, 0x8b] \<longrightarrow>
      extract_xml_from_ableton_project gunzip decode fromstring fs als_file =
        Inl (Exception ''Nothing to do here''))"
  by (simp add: extract_xml_from_ableton_project_def Let_def)

theorem load_rejects_missing_and_uncompressed_witness:
  "extract_xml_from_ableton_project Inr (\<lambda>raw. Inr ''<Ableton/>'')
      (\<lambda>s. Inr (Element ''Ableton'' [] None []))
      [''song.als'' \<mapsto> [0x3c, 0x41, 0x62]] ''missing''
     = Inl (FileNotFoundError ''The Ableton project missing.als does not exist'')
   \<and> extract_xml_from_ableton_project Inr (\<lambda>raw. Inr ''<Ableton/>'')
      (\<lambda>s. Inr (Element ''Ableton'' [] None []))
      [''song.als'' \<mapsto> [0x3c, 0x41, 0x62]] ''song''
     = Inl (Exception ''Nothing to do here'')"
proof -
  have m: "add_als_extension_if_it_is_not_set ''missing'' = ''missing.als''"
    and s: "add_als_extension_if_it_is_not_set ''song'' = ''song.als''"
    by (simp_all add: add_als_extension_if_it_is_not_set_def endswith_def)
  have magic: "take 2 [0x3c, 0x41, 0x62 :: byte] \<noteq> [0x1f, 0x8b]" by simp
  from load_rejects_missing_and_uncompressed
         [where fs = "[''song.als'' \<mapsto> [0x3c, 0x41, 0x62]]" and als_file = "''missing''"
            and gunzip = Inr and decode = "\<lambda>raw. Inr ''<Ableton/>''"
            and fromstring = "\<lambda>s. Inr (Element ''Ableton'' [] None [])"]
  have a: "extract_xml_from_ableton_project Inr (\<lambda>raw. Inr ''<Ableton/>'')
      (\<lambda>s. Inr (Element ''Ableton'' [] None []))
      [''song.als'' \<mapsto> [0x3c, 0x41, 0x62]] ''missing''
     = Inl (FileNotFoundError ''The Ableton project missing.als does not exist'')"
    unfolding m by simp
  from load_rejects_missing_and_uncompressed
         [where fs = "[''song.als'' \<mapsto> [0x3c, 0x41, 0x62]]" and als_file = "''song''"
            and gunzip = Inr and decode = "\<lambda>raw. Inr ''<Ableton/>''"
            and fromstring = "\<lambda>s. Inr (Element ''Ableton'' [] None [])"]
  have b: "extract_xml_from_ableton_project Inr (\<lambda>raw. Inr ''<Ableton/>'')
      (\<lambda>s. Inr (Element ''Ableton'' [] None []))
      [''song.als'' \<mapsto> [0x3c, 0x41, 0x62]] ''song''
     = Inl (Exception ''Nothing to do here'')"
    unfolding s using magic by simp
  from a b show ?thesis by (intro conjI)
qed

text \<open>
  C5. Take a path whose only occurrence of \<open>.als\<close>, once the extension is appended, is
  that final extension: the project file is \<open>stem.als\<close> and lines 120 and 122 compute the
  backup path \<open>stem_old.als\<close>. If the project file does not exist, the move fails with
  \<open>FileNotFoundError\<close> and no file has changed. If it exists, the move succeeds whether
  or not a file is already at the backup path, and it comes before every write: when the
  call ends, with or without an exception, the backup path holds the bytes the project
  file had before the call and no file other than the project, the backup and the
  intermediate file has changed. The call then succeeds exactly when \<open>stem\<close> can name a
  file: the project path holds the compressed new document and the intermediate file is
  gone. Otherwise \<open>open\<close> raises after the move and the project path is left without a
  file.
\<close>

theorem save_moves_project_to_backup_first:
  assumes "add_als_extension_if_it_is_not_set als_file = stem @ ''.als''"
    and "\<forall>i. take 4 (drop i stem) \<noteq> ''.als''"
  shows "(fs (stem @ ''.als'') = None \<longrightarrow>
            replace_ableton_project serialize gzip_compress fs als_file tree
              = (Some (FileNotFoundError (stem @ ''.als'')), fs))
       \<and> (\<forall>content. fs (stem @ ''.als'') = Some content \<longrightarrow>
            (\<exists>r fs'. replace_ableton_project serialize gzip_compress fs als_file tree = (r, fs')
               \<and> fs' (stem @ ''_old.als'') = Some content
               \<and> (\<forall>path. path \<noteq> stem @ ''.als'' \<and> path \<noteq> stem @ ''_old.als'' \<and> path \<noteq> stem
                     \<longrightarrow> fs' path = fs path)
               \<and> (r = None \<longleftrightarrow> \<not> names_directory stem)
               \<and> (r = None \<longrightarrow>
                     fs' (stem @ ''.als'') = Some (gzip_compress stem (serialize tree))
                     \<and> fs' stem = None)
               \<and> (r \<noteq> None \<longrightarrow> fs' (stem @ ''.als'') = None \<and> fs' stem = fs stem)))"
proof -
  have stem: "str_replace ''.als'' '''' (stem @ ''.als'') = stem"
    using assms(2) by (rule str_replace_final_extension)
  have d1: "stem @ ''_old.als'' \<noteq> stem @ ''.als''" by simp
  have d2: "stem \<noteq> stem @ ''.als''" "stem \<noteq> stem @ ''_old.als''" by simp_all
  have missing: "fs (stem @ ''.als'') = None \<longrightarrow>
            replace_ableton_project serialize gzip_compress fs als_file tree
              = (Some (FileNotFoundError (stem @ ''.als'')), fs)"
    by (simp add: replace_ableton_project_def shutil_move_def assms(1) stem Let_def)
  have present: "\<exists>r fs'. replace_ableton_project serialize gzip_compress fs als_file tree = (r, fs')
               \<and> fs' (stem @ ''_old.als'') = Some content
               \<and> (\<forall>path. path \<noteq> stem @ ''.als'' \<and> path \<noteq> stem @ ''_old.als'' \<and> path \<noteq> stem
                     \<longrightarrow> fs' path = fs path)
               \<and> (r = None \<longleftrightarrow> \<not> names_directory stem)
               \<and> (r = None \<longrightarrow>
                     fs' (stem @ ''.als'') = Some (gzip_compress stem (serialize tree))
                     \<and> fs' stem = None)
               \<and> (r \<noteq> None \<longrightarrow> fs' (stem @ ''.als'') = None \<and> fs' stem = fs stem)"
    if c: "fs (stem @ ''.als'') = Some content" for content
  proof (cases "names_directory stem")
    case True
    then show ?thesis
      using c d1 d2
      by (simp add: replace_ableton_project_def shutil_move_def assms(1) stem Let_def
          open_for_writing_cases)
  next
    case False
    then show ?thesis
      using c d1 d2
      by (simp add: replace_ableton_project_def shutil_move_def assms(1) stem Let_def
          open_for_writing_cases project_path_names_a_file)
  qed
  from missing present show ?thesis by blast
qed

theorem save_moves_project_to_backup_first_witness:
  "replace_ableton_project (\<lambda>t. [0x3c, 0x41]) (\<lambda>name content. [0x1f, 0x8b] @ content)
      [''other.als'' \<mapsto> [7]] ''song'' (Element ''Ableton'' [] None [])
     = (Some (FileNotFoundError ''song.als''), [''other.als'' \<mapsto> [7]])
   \<and> (\<exists>fs'. replace_ableton_project (\<lambda>t. [0x3c, 0x41]) (\<lambda>name content. [0x1f, 0x8b] @ content)
              [''song.als'' \<mapsto> [1, 2, 3]] ''song'' (Element ''Ableton'' [] None [])
            = (None, fs')
        \<and> fs' ''song_old.als'' = Some [1, 2, 3]
        \<and> fs' ''song.als'' = Some [0x1f, 0x8b, 0x3c, 0x41]
        \<and> fs' ''song'' = None)
   \<and> (\<exists>r fs'. replace_ableton_project (\<lambda>t. [0x3c, 0x41]) (\<lambda>name content. [0x1f, 0x8b] @ content)
              [''.als'' \<mapsto> [1, 2, 3]] '''' (Element ''Ableton'' [] None [])
            = (r, fs')
        \<and> r \<noteq> None
        \<and> fs' ''_old.als'' = Some [1, 2, 3]
        \<and> fs' ''.als'' = None)"
proof -
  let ?ser = "\<lambda>t::element. [0x3c, 0x41 :: byte]"
  let ?gz = "\<lambda>(name::string) (content::byte list). [0x1f, 0x8b] @ content"
  let ?tree = "Element ''Ableton'' [] None []"
  have ext: "add_als_extension_if_it_is_not_set ''song'' = ''song'' @ ''.als''"
    by (simp add: add_als_extension_if_it_is_not_set_def endswith_def)
  have stem: "\<forall>i. take 4 (drop i ''song'') \<noteq> ''.als''"
    by (rule no_dot_no_als) simp
  have isfile: "\<not> names_directory ''song''"
    by (simp add: names_directory_def basename_of_def)
  note inst = save_moves_project_to_backup_first [OF ext stem,
      where serialize = ?ser and gzip_compress = ?gz and tree = ?tree]
  have "[''other.als'' \<mapsto> [7::byte]] (''song'' @ ''.als'') = None" by simp
  with inst [where fs = "[''other.als'' \<mapsto> [7]]", THEN conjunct1]
  have a: "replace_ableton_project ?ser ?gz [''other.als'' \<mapsto> [7]] ''song'' ?tree
     = (Some (FileNotFoundError ''song.als''), [''other.als'' \<mapsto> [7]])"
    by simp
  have "[''song.als'' \<mapsto> [1, 2, 3 :: byte]] (''song'' @ ''.als'') = Some [1, 2, 3]" by simp
  with inst [where fs = "[''song.als'' \<mapsto> [1, 2, 3]]", THEN conjunct2]
  obtain r fs' where
    run: "replace_ableton_project ?ser ?gz [''song.als'' \<mapsto> [1, 2, 3]] ''song'' ?tree = (r, fs')"
    and bak: "fs' (''song'' @ ''_old.als'') = Some [1, 2, 3]"
    and ok: "r = None \<longleftrightarrow> \<not> names_directory ''song''"
    and fin: "r = None \<longrightarrow> fs' (''song'' @ ''.als'') = Some (?gz ''song'' (?ser ?tree))
                 \<and> fs' ''song'' = None"
    by blast
  from ok isfile have r: "r = None" by simp
  have b: "\<exists>fs'. replace_ableton_project ?ser ?gz [''song.als'' \<mapsto> [1, 2, 3]] ''song'' ?tree
            = (None, fs')
        \<and> fs' ''song_old.als'' = Some [1, 2, 3]
        \<and> fs' ''song.als'' = Some [0x1f, 0x8b, 0x3c, 0x41]
        \<and> fs' ''song'' = None"
    using run bak fin r by (intro exI [of _ fs']) simp
  have ext0: "add_als_extension_if_it_is_not_set '''' = '''' @ ''.als''"
    by (simp add: add_als_extension_if_it_is_not_set_def endswith_def)
  have stem0: "\<forall>i. take 4 (drop i '''') \<noteq> ''.als''" by simp
  have dir0: "names_directory ''''"
    by (simp add: names_directory_def basename_of_def)
  have "[''.als'' \<mapsto> [1, 2, 3 :: byte]] ('''' @ ''.als'') = Some [1, 2, 3]" by simp
  with save_moves_project_to_backup_first [OF ext0 stem0,
      where serialize = ?ser and gzip_compress = ?gz and tree = ?tree
        and fs = "[''.als'' \<mapsto> [1, 2, 3]]", THEN conjunct2]
  obtain r0 fs0 where
    run0: "replace_ableton_project ?ser ?gz [''.als'' \<mapsto> [1, 2, 3]] '''' ?tree = (r0, fs0)"
    and bak0: "fs0 ('''' @ ''_old.als'') = Some [1, 2, 3]"
    and ok0: "r0 = None \<longleftrightarrow> \<not> names_directory ''''"
    and fail0: "r0 \<noteq> None \<longrightarrow> fs0 ('''' @ ''.als'') = None \<and> fs0 '''' = [''.als'' \<mapsto> [1, 2, 3]] ''''"
    by blast
  from ok0 dir0 have r0: "r0 \<noteq> None" by simp
  have c: "\<exists>r fs'. replace_ableton_project ?ser ?gz [''.als'' \<mapsto> [1, 2, 3]] '''' ?tree = (r, fs')
        \<and> r \<noteq> None
        \<and> fs' ''_old.als'' = Some [1, 2, 3]
        \<and> fs' ''.als'' = None"
    using run0 bak0 fail0 r0 by (intro exI [of _ r0] exI [of _ fs0]) simp
  from a b c show ?thesis by (intro conjI)
qed

theorem save_overwrites_existing_backup:
  "fst (replace_ableton_project (\<lambda>t. [0x3c, 0x41]) (\<lambda>name content. [0x1f, 0x8b] @ content)
          [''song.als'' \<mapsto> [1, 2, 3], ''song_old.als'' \<mapsto> [9, 9]]
          ''song'' (Element ''Ableton'' [] None [])) = None
   \<and> snd (replace_ableton_project (\<lambda>t. [0x3c, 0x41]) (\<lambda>name content. [0x1f, 0x8b] @ content)
          [''song.als'' \<mapsto> [1, 2, 3], ''song_old.als'' \<mapsto> [9, 9]]
          ''song'' (Element ''Ableton'' [] None [])) ''song_old.als'' = Some [1, 2, 3]"
proof -
  have ext: "add_als_extension_if_it_is_not_set ''song'' = ''song.als''"
    by (simp add: add_als_extension_if_it_is_not_set_def endswith_def)
  have stem: "str_replace ''.als'' '''' ''song.als'' = ''song''" by simp
  have isfile: "\<not> names_directory ''song''" "\<not> names_directory ''song.als''"
    by (simp_all add: names_directory_def basename_of_def)
  show ?thesis
    by (simp add: replace_ableton_project_def shutil_move_def Let_def ext stem
        open_for_writing_def isfile)
qed

lemma backup_path_strips_every_als:
  "str_replace ''.als'' '''' (add_als_extension_if_it_is_not_set ''my.alsets/song'') @ ''_old.als''
     = ''myets/song_old.als''"
  by (simp add: add_als_extension_if_it_is_not_set_def endswith_def)

end
